theory Spec2Isabelle
  imports Complex_Main "HOL-Library.Char_ord" "HOL-Library.List_Lexorder"
begin

section \<open>Strings and paths\<close>

text \<open>
  Python strings are modelled as \<open>string\<close> (ASCII); \<open>pathlib\<close> paths as strings with
  \<open>/\<close> as the separator. The text of a raised exception (\<open>str(e)\<close>) is a string.
\<close>

type_synonym exn = string

definition key_error :: "string \<Rightarrow> exn" where
  \<comment> \<open>\<open>str(KeyError(k))\<close> is the key in single quotes\<close>
  "key_error k = [CHR 0x27] @ k @ [CHR 0x27]"

fun str_nat :: "nat \<Rightarrow> string" where
  "str_nat n =
     (if n < 10 then [''0123456789'' ! n]
      else str_nat (n div 10) @ [''0123456789'' ! (n mod 10)])"

declare str_nat.simps [simp del]

definition pad2 :: "nat \<Rightarrow> string" where
  \<comment> \<open>the format \<open>{n:02d}\<close>: at least two digits, padded with zeros on the left\<close>
  "pad2 n = (if n < 10 then CHR ''0'' # str_nat n else str_nat n)"

definition lower_char :: "char \<Rightarrow> char" where
  "lower_char c =
     (case map_of (zip ''ABCDEFGHIJKLMNOPQRSTUVWXYZ'' ''abcdefghijklmnopqrstuvwxyz'') c of
        None \<Rightarrow> c
      | Some l \<Rightarrow> l)"

definition lower :: "string \<Rightarrow> string" where
  "lower s = map lower_char s"

definition replace_space :: "string \<Rightarrow> string" where
  \<comment> \<open>\<open>s.replace(' ', '_')\<close>\<close>
  "replace_space s = map (\<lambda>c. if c = CHR '' '' then CHR ''_'' else c) s"

definition startswith :: "string \<Rightarrow> string \<Rightarrow> bool" where
  "startswith s p = (take (length p) s = p)"

definition endswith :: "string \<Rightarrow> string \<Rightarrow> bool" where
  "endswith s p = (length p \<le> length s \<and> drop (length s - length p) s = p)"

definition rstrip_slash :: "string \<Rightarrow> string" where
  \<comment> \<open>\<open>s.rstrip('/')\<close>\<close>
  "rstrip_slash s = rev (dropWhile (\<lambda>c. c = CHR ''/'') (rev s))"

fun split_on :: "char \<Rightarrow> string \<Rightarrow> string list" where
  \<comment> \<open>\<open>s.split(c)\<close>\<close>
  "split_on c [] = [[]]"
| "split_on c (x # xs) =
     (if x = c then [] # split_on c xs
      else (case split_on c xs of [] \<Rightarrow> [[x]] | y # ys \<Rightarrow> (x # y) # ys))"

definition path_root :: "string \<Rightarrow> string" where
  \<comment> \<open>the root of a POSIX path: \<open>/\<close>, exactly two slashes, or none\<close>
  "path_root p =
     (if take 2 p = ''//'' \<and> take 3 p \<noteq> ''///'' then ''//''
      else if take 1 p = ''/'' then ''/''
      else [])"

definition path_parts :: "string \<Rightarrow> string list" where
  \<comment> \<open>the components of a path; pathlib drops the empty ones and the dots\<close>
  "path_parts p = filter (\<lambda>c. c \<noteq> [] \<and> c \<noteq> ''.'') (split_on CHR ''/'' p)"

fun join_parts :: "string list \<Rightarrow> string" where
  "join_parts [] = []"
| "join_parts [c] = c"
| "join_parts (c # cs) = c @ ''/'' @ join_parts cs"

definition make_path :: "string \<Rightarrow> string list \<Rightarrow> string" where
  \<comment> \<open>\<open>str\<close> of the path with the given root and components; the empty path is \<open>.\<close>\<close>
  "make_path r parts =
     (if parts = [] then (if r = [] then ''.'' else r) else r @ join_parts parts)"

definition normpath :: "string \<Rightarrow> string" where
  \<comment> \<open>\<open>str(Path(p))\<close>: \<open>./ads\<close> and \<open>ads/\<close> are both \<open>ads\<close>\<close>
  "normpath p = make_path (path_root p) (path_parts p)"

definition path_join :: "string \<Rightarrow> string \<Rightarrow> string" where
  \<comment> \<open>\<open>str(Path(d) / name)\<close>; an absolute \<open>name\<close> replaces \<open>d\<close>\<close>
  "path_join d name =
     (if path_root name \<noteq> [] then normpath name
      else make_path (path_root d) (path_parts d @ path_parts name))"

definition path_name :: "string \<Rightarrow> string" where
  \<comment> \<open>\<open>Path(p).name\<close>: the final component, empty when there is none\<close>
  "path_name p = (if path_parts p = [] then [] else last (path_parts p))"


definition normal_parts :: "string list \<Rightarrow> bool" where
  \<comment> \<open>components as pathlib keeps them: not empty, not \<open>.\<close>, without a separator\<close>
  "normal_parts ps = (\<forall>p \<in> set ps. CHR ''/'' \<notin> set p \<and> p \<noteq> [] \<and> p \<noteq> ''.'')"

definition truthy :: "string option \<Rightarrow> bool" where
  \<comment> \<open>Python's truth value of an optional string: \<open>None\<close> and \<open>''\<close> are false\<close>
  "truthy s = (s \<noteq> None \<and> s \<noteq> Some [])"


section \<open>ads\_generation.py: the job tracker\<close>

record start_response =
  invocationArn :: "string option"

text \<open>
  A status response as \<open>generate_video_async\<close> reads it: the key \<open>status\<close> (absent: None),
  the result of the nested lookup \<open>['outputDataConfig']['s3OutputDataConfig']['s3Uri']\<close>
  (\<open>Inl\<close> the text of the KeyError it raises) and the optional key \<open>failureReason\<close>.
\<close>

record status_response =
  status :: "string option"
  s3Uri :: "exn + string"
  failureReason :: "string option"

record model_input =
  mi_prompt :: string
  mi_aspect_ratio :: string
  mi_loop :: bool
  mi_duration :: string
  mi_resolution :: string
  mi_keyframes :: "string option"

text \<open>
  The remote services. Jobs run one after the other, so the answer to a call is indexed
  by the job (\<open>video_index\<close>) and, for a poll, by the attempt; an answer \<open>Inl e\<close> is an
  exception with text \<open>e\<close> raised by the client. \<open>uuid4\<close> and the clock are read the
  same way.
\<close>

record remote =
  uuid4 :: "nat \<Rightarrow> string"
  start_async_invoke :: "nat \<Rightarrow> model_input \<Rightarrow> string \<Rightarrow> exn + start_response"
  get_async_invoke :: "nat \<Rightarrow> nat \<Rightarrow> string \<Rightarrow> exn + status_response"
  elapsed_time :: "nat \<Rightarrow> nat \<Rightarrow> rat"
  list_objects_v2 :: "nat \<Rightarrow> string \<Rightarrow> string \<Rightarrow> exn + string list option"
  download_file :: "nat \<Rightarrow> string \<Rightarrow> string \<Rightarrow> string \<Rightarrow> exn + unit"

datatype event =
    Submit nat model_input string
  | Sleep nat
  | Poll nat string
  | Retrieve nat string string
  | ListObjects string string
  | DownloadFile string string string
  | WriteFile string

fun is_poll :: "event \<Rightarrow> bool" where
  "is_poll (Poll k arn) = True"
| "is_poll e = False"

fun is_retrieve :: "nat \<Rightarrow> event \<Rightarrow> bool" where
  "is_retrieve k (Retrieve j loc p) = (j = k)"
| "is_retrieve k e = False"

fun is_write :: "event \<Rightarrow> bool" where
  "is_write (WriteFile p) = True"
| "is_write e = False"

fun sleep_of :: "event \<Rightarrow> nat" where
  "sleep_of (Sleep d) = d"
| "sleep_of e = 0"

definition polls :: "event list \<Rightarrow> nat" where
  "polls evs = length (filter is_poll evs)"

definition slept :: "event list \<Rightarrow> nat" where
  \<comment> \<open>the seconds spent in \<open>time.sleep\<close>\<close>
  "slept evs = sum_list (map sleep_of evs)"

definition retrievals :: "nat \<Rightarrow> event list \<Rightarrow> nat" where
  \<comment> \<open>how often \<open>download_video_from_s3\<close> was called for job \<open>k\<close>\<close>
  "retrievals k evs = length (filter (is_retrieve k) evs)"

definition pending :: "exn + status_response \<Rightarrow> bool" where
  \<comment> \<open>a poll that neither raises nor reports \<open>Completed\<close> or \<open>Failed\<close>\<close>
  "pending a =
     (case a of
        Inl e \<Rightarrow> False
      | Inr sr \<Rightarrow>
          (case status sr of None \<Rightarrow> False | Some s \<Rightarrow> s \<noteq> ''Completed'' \<and> s \<noteq> ''Failed''))"

record job_result =
  success :: bool
  s3_location :: "string option"
  prompt :: string
  source_image :: "string option"
  generation_time :: "rat option"
  job_id :: "string option"
  video_index :: nat
  error :: "string option"
  full_error_response :: "status_response option"
  prompt_type :: "string option"
  image_index :: "nat option"
  prompt_index :: "nat option"
  timestamp :: "string option"
  local_filename :: "string option"

definition base_result :: "bool \<Rightarrow> string \<Rightarrow> string option \<Rightarrow> nat \<Rightarrow> job_result" where
  \<comment> \<open>the keys every returned dict has; the others are absent\<close>
  "base_result ok prompt_text image_filename vi =
     \<lparr>success = ok, s3_location = None, prompt = prompt_text, source_image = image_filename,
      generation_time = None, job_id = None, video_index = vi, error = None,
      full_error_response = None, prompt_type = None, image_index = None,
      prompt_index = None, timestamp = None, local_filename = None\<rparr>"

definition completed_result ::
  "string \<Rightarrow> string option \<Rightarrow> nat \<Rightarrow> string \<Rightarrow> rat \<Rightarrow> string \<Rightarrow> job_result" where
  "completed_result prompt_text image_filename vi loc t jid =
     (base_result True prompt_text image_filename vi)
       \<lparr>s3_location := Some loc, generation_time := Some t, job_id := Some jid\<rparr>"

definition failed_result ::
  "string \<Rightarrow> string option \<Rightarrow> nat \<Rightarrow> status_response \<Rightarrow> job_result" where
  "failed_result prompt_text image_filename vi sr =
     (base_result False prompt_text image_filename vi)
       \<lparr>error := Some (''Generation failed: '' @
            (case failureReason sr of None \<Rightarrow> ''No failureReason provided'' | Some m \<Rightarrow> m)),
        full_error_response := Some sr\<rparr>"

definition timeout_result :: "string \<Rightarrow> string option \<Rightarrow> nat \<Rightarrow> job_result" where
  "timeout_result prompt_text image_filename vi =
     (base_result False prompt_text image_filename vi)
       \<lparr>error := Some ''Generation timed out after maximum attempts''\<rparr>"

definition exception_result :: "string \<Rightarrow> string option \<Rightarrow> nat \<Rightarrow> exn \<Rightarrow> job_result" where
  "exception_result prompt_text image_filename vi e =
     (base_result False prompt_text image_filename vi)
       \<lparr>error := Some (''Error generating video: '' @ e)\<rparr>"

definition max_attempts :: nat where
  "max_attempts = 60"

definition poll_delay :: nat where
  \<comment> \<open>\<open>time.sleep(10)\<close>\<close>
  "poll_delay = 10"

text \<open>
  The loop \<open>for attempt in range(max_attempts)\<close>: \<open>n\<close> iterations are left, the next one
  is number \<open>attempt\<close>. The value after the last iteration is the timeout dict. \<open>Inl e\<close>
  is an exception that leaves the loop.
\<close>

fun poll_loop ::
  "remote \<Rightarrow> string \<Rightarrow> string option \<Rightarrow> nat \<Rightarrow> string \<Rightarrow> string \<Rightarrow> nat \<Rightarrow> nat
     \<Rightarrow> (exn + job_result) \<times> event list" where
  "poll_loop R prompt_text image_filename vi jid arn 0 attempt =
     (Inr (timeout_result prompt_text image_filename vi), [])"
| "poll_loop R prompt_text image_filename vi jid arn (Suc n) attempt =
     (case get_async_invoke R vi attempt arn of
        Inl e \<Rightarrow> (Inl e, [Sleep poll_delay, Poll vi arn])
      | Inr sr \<Rightarrow>
          (case status sr of
             None \<Rightarrow> (Inl (key_error ''status''), [Sleep poll_delay, Poll vi arn])
           | Some s \<Rightarrow>
               if s = ''Completed'' then
                 (case s3Uri sr of
                    Inl e \<Rightarrow> (Inl e, [Sleep poll_delay, Poll vi arn])
                  | Inr loc \<Rightarrow>
                      (Inr (completed_result prompt_text image_filename vi loc
                              (elapsed_time R vi attempt) jid),
                       [Sleep poll_delay, Poll vi arn]))
               else if s = ''Failed'' then
                 (Inr (failed_result prompt_text image_filename vi sr),
                  [Sleep poll_delay, Poll vi arn])
               else
                 (case poll_loop R prompt_text image_filename vi jid arn n (Suc attempt) of
                    (res, evs) \<Rightarrow> (res, [Sleep poll_delay, Poll vi arn] @ evs))))"

definition make_model_input :: "string \<Rightarrow> string option \<Rightarrow> model_input" where
  "make_model_input prompt_text keyframe_image =
     \<lparr>mi_prompt = prompt_text, mi_aspect_ratio = ''16:9'', mi_loop = False,
      mi_duration = ''5s'', mi_resolution = ''720p'',
      mi_keyframes = (if truthy keyframe_image then keyframe_image else None)\<rparr>"

definition s3_output_uri :: "string \<Rightarrow> string \<Rightarrow> string \<Rightarrow> string" where
  "s3_output_uri s3_bucket s3_prefix jid =
     ''s3://'' @ s3_bucket @ ''/'' @ s3_prefix @ ''/'' @ jid @ ''/''"

definition try_block ::
  "remote \<Rightarrow> string \<Rightarrow> string \<Rightarrow> string \<Rightarrow> nat \<Rightarrow> string option \<Rightarrow> string option
     \<Rightarrow> (exn + job_result) \<times> event list" where
  \<comment> \<open>the body of the \<open>try\<close> of \<open>generate_video_async\<close>\<close>
  "try_block R prompt_text s3_bucket s3_prefix vi keyframe_image image_filename =
     (let jid = uuid4 R vi;
          uri = s3_output_uri s3_bucket s3_prefix jid;
          inp = make_model_input prompt_text keyframe_image
      in case start_async_invoke R vi inp uri of
           Inl e \<Rightarrow> (Inl e, [Submit vi inp uri])
         | Inr response \<Rightarrow>
             (case invocationArn response of
                None \<Rightarrow> (Inl (key_error ''invocationArn''), [Submit vi inp uri])
              | Some arn \<Rightarrow>
                  (case poll_loop R prompt_text image_filename vi jid arn max_attempts 0 of
                     (res, evs) \<Rightarrow> (res, Submit vi inp uri # evs))))"

definition generate_video_async ::
  "remote \<Rightarrow> string \<Rightarrow> string \<Rightarrow> string \<Rightarrow> nat \<Rightarrow> string option \<Rightarrow> string option
     \<Rightarrow> job_result \<times> event list" where
  \<comment> \<open>\<open>except Exception as e\<close>: the exception becomes a result dict\<close>
  "generate_video_async R prompt_text s3_bucket s3_prefix vi keyframe_image image_filename =
     (case try_block R prompt_text s3_bucket s3_prefix vi keyframe_image image_filename of
        (Inl e, evs) \<Rightarrow> (exception_result prompt_text image_filename vi e, evs)
      | (Inr r, evs) \<Rightarrow> (r, evs))"

definition download_video_from_s3 ::
  "remote \<Rightarrow> nat \<Rightarrow> string \<Rightarrow> string \<Rightarrow> bool \<times> event list" where
  \<comment> \<open>\<open>k\<close> tells the calls apart (the job they belong to); every exception gives False\<close>
  "download_video_from_s3 R k loc local_path =
     (let u = rstrip_slash loc;
          u' = (if startswith u ''s3://'' then drop 5 u else u)
      in if CHR ''/'' \<notin> set u' then (False, [Retrieve k loc local_path])
         else
           (let bucket = takeWhile (\<lambda>c. c \<noteq> CHR ''/'') u';
                pre = tl (dropWhile (\<lambda>c. c \<noteq> CHR ''/'') u')
            in case list_objects_v2 R k bucket pre of
                 Inl e \<Rightarrow> (False, [Retrieve k loc local_path, ListObjects bucket pre])
               | Inr None \<Rightarrow> (False, [Retrieve k loc local_path, ListObjects bucket pre])
               | Inr (Some keys) \<Rightarrow>
                   (case find (\<lambda>key. endswith key ''.mp4'') keys of
                      None \<Rightarrow> (False, [Retrieve k loc local_path, ListObjects bucket pre])
                    | Some key \<Rightarrow>
                        (case download_file R k bucket key local_path of
                           Inl e \<Rightarrow>
                             (False, [Retrieve k loc local_path, ListObjects bucket pre,
                                      DownloadFile bucket key local_path])
                         | Inr _ \<Rightarrow>
                             (True, [Retrieve k loc local_path, ListObjects bucket pre,
                                     DownloadFile bucket key local_path])))))"


section \<open>ads\_generation.py: the session aggregator\<close>

text \<open>
  An entry of \<open>video_prompts\<close> is a dict with the optional keys \<open>prompt\<close> and
  \<open>prompt_type\<close> (strings), or some other value, given by its \<open>str()\<close>.
\<close>

datatype prompt_data = PromptDict "string option" "string option" | PromptOther string

record image_analysis =
  image_filename :: "string option"
  video_prompts :: "prompt_data list option"

text \<open>What \<open>product_analysis_prompts.json\<close> holds, as far as \<open>load_prompts\<close> looks.\<close>

datatype analysis_file =
    NoFile
  | PerImage "image_analysis list"
  | OldFormat "prompt_data list"
  | NoPrompts

definition load_prompts :: "analysis_file \<Rightarrow> exn + image_analysis list" where
  \<comment> \<open>the value of \<open>per_image_analysis\<close> in the returned dict, or the ValueError raised\<close>
  "load_prompts f =
     (case f of
        NoFile \<Rightarrow> Inl ''Product analysis file not found. Please run product_analysis.py first.''
      | PerImage xs \<Rightarrow> Inr xs
      | OldFormat ps \<Rightarrow> Inr [\<lparr>image_filename = None, video_prompts = Some ps\<rparr>]
      | NoPrompts \<Rightarrow> Inl ''No video prompts found in the analysis file'')"

definition slice_to :: "int \<Rightarrow> 'a list \<Rightarrow> 'a list" where
  \<comment> \<open>\<open>xs[:n]\<close>; a negative \<open>n\<close> counts from the end\<close>
  "slice_to n xs = (if 0 \<le> n then take (nat n) xs else take (length xs - nat (- n)) xs)"

text \<open>
  The local machine: the analysis file, which product images exist, what
  \<open>encode_image_for_luma\<close> returns for a path (None on any error; its image processing is
  not modelled) and the clock readings of \<open>datetime.now()\<close>.
\<close>

record host =
  prompts_file :: analysis_file
  image_exists :: "string \<Rightarrow> bool"
  encode_image_for_luma :: "string \<Rightarrow> string option"
  now_strftime :: string
  now_isoformat :: "nat \<Rightarrow> string"

record gen_state =
  successful_videos :: "job_result list"
  failed_videos :: "job_result list"
  total_video_index :: nat
  trace :: "event list"

definition prompt_text_of :: "prompt_data \<Rightarrow> string" where
  "prompt_text_of pd =
     (case pd of
        PromptDict p t \<Rightarrow> (case p of None \<Rightarrow> [] | Some x \<Rightarrow> x)
      | PromptOther s \<Rightarrow> s)"

definition prompt_type_of :: "prompt_data \<Rightarrow> string" where
  "prompt_type_of pd =
     (case pd of
        PromptDict p t \<Rightarrow> (case t of None \<Rightarrow> ''Unknown'' | Some x \<Rightarrow> x)
      | PromptOther s \<Rightarrow> ''Unknown'')"

definition local_filename_of :: "string \<Rightarrow> nat \<Rightarrow> nat \<Rightarrow> string \<Rightarrow> string" where
  "local_filename_of ts img_idx prompt_idx ptype =
     ''video_'' @ ts @ ''_'' @ pad2 img_idx @ ''_'' @ pad2 prompt_idx @ ''_''
       @ replace_space (lower ptype) @ ''.mp4''"

definition annotate ::
  "job_result \<Rightarrow> string \<Rightarrow> string \<Rightarrow> nat \<Rightarrow> nat \<Rightarrow> string \<Rightarrow> job_result" where
  \<comment> \<open>the five keys set on the result of every job\<close>
  "annotate res img_name ptype img_idx prompt_idx ts =
     res\<lparr>source_image := Some img_name, prompt_type := Some ptype,
         image_index := Some img_idx, prompt_index := Some prompt_idx,
         timestamp := Some ts\<rparr>"

text \<open>
  The body of the inner loop. \<open>result['s3_location']\<close> raises a KeyError when the key is
  absent, which would leave \<open>generate_ads\<close>: \<open>Inl\<close>.
\<close>

definition process_prompt ::
  "remote \<Rightarrow> string \<Rightarrow> string \<Rightarrow> string \<Rightarrow> string \<Rightarrow> nat \<Rightarrow> string \<Rightarrow> string option
     \<Rightarrow> nat \<Rightarrow> prompt_data \<Rightarrow> gen_state \<Rightarrow> exn + gen_state" where
  "process_prompt R bucket pre ts generated_folder img_idx img_name keyframe prompt_idx pd st =
     (let tvi = Suc (total_video_index st);
          ptype = prompt_type_of pd
      in case generate_video_async R (prompt_text_of pd) bucket pre tvi keyframe (Some img_name) of
           (res, evs) \<Rightarrow>
             (let result = annotate res img_name ptype img_idx prompt_idx ts
              in if success result then
                   (case s3_location result of
                      None \<Rightarrow> Inl (key_error ''s3_location'')
                    | Some loc \<Rightarrow>
                        (let local_path =
                               path_join generated_folder
                                 (local_filename_of ts img_idx prompt_idx ptype)
                         in case download_video_from_s3 R tvi loc local_path of
                              (ok, devs) \<Rightarrow>
                                Inr (st\<lparr>successful_videos := successful_videos st @
                                           [if ok then result\<lparr>local_filename := Some local_path\<rparr>
                                            else result],
                                        total_video_index := tvi,
                                        trace := trace st @ evs @ devs\<rparr>)))
                 else
                   Inr (st\<lparr>failed_videos := failed_videos st @ [result],
                           total_video_index := tvi,
                           trace := trace st @ evs\<rparr>)))"

fun prompt_loop ::
  "remote \<Rightarrow> string \<Rightarrow> string \<Rightarrow> string \<Rightarrow> string \<Rightarrow> nat \<Rightarrow> string \<Rightarrow> string option
     \<Rightarrow> nat \<Rightarrow> prompt_data list \<Rightarrow> gen_state \<Rightarrow> exn + gen_state" where
  "prompt_loop R bucket pre ts gf img_idx img_name keyframe prompt_idx [] st = Inr st"
| "prompt_loop R bucket pre ts gf img_idx img_name keyframe prompt_idx (pd # pds) st =
     (case process_prompt R bucket pre ts gf img_idx img_name keyframe prompt_idx pd st of
        Inl e \<Rightarrow> Inl e
      | Inr st' \<Rightarrow>
          prompt_loop R bucket pre ts gf img_idx img_name keyframe (Suc prompt_idx) pds st')"

definition process_image ::
  "remote \<Rightarrow> host \<Rightarrow> string \<Rightarrow> int \<Rightarrow> string \<Rightarrow> bool \<Rightarrow> string \<Rightarrow> string \<Rightarrow> nat
     \<Rightarrow> image_analysis \<Rightarrow> gen_state \<Rightarrow> exn + gen_state" where
  \<comment> \<open>the body of the outer loop\<close>
  "process_image R H folder n bucket use_imgs pre ts img_idx ia st =
     (let default_name = ''image_'' @ str_nat img_idx;
          img_name = (case image_filename ia of None \<Rightarrow> default_name | Some f \<Rightarrow> f);
          prompts = (case video_prompts ia of None \<Rightarrow> [] | Some ps \<Rightarrow> ps)
      in if prompts = [] then Inr st
         else
           (let img_path = path_join (path_join folder ''product_images'') img_name;
                keyframe =
                  (if use_imgs \<and> img_name \<noteq> default_name \<and> image_exists H img_path
                   then encode_image_for_luma H img_path else None)
            in prompt_loop R bucket pre ts (path_join folder ''generated_ads'') img_idx img_name
                 keyframe 1 (slice_to n prompts) st))"

fun image_loop ::
  "remote \<Rightarrow> host \<Rightarrow> string \<Rightarrow> int \<Rightarrow> string \<Rightarrow> bool \<Rightarrow> string \<Rightarrow> string \<Rightarrow> nat
     \<Rightarrow> image_analysis list \<Rightarrow> gen_state \<Rightarrow> exn + gen_state" where
  "image_loop R H folder n bucket use_imgs pre ts img_idx [] st = Inr st"
| "image_loop R H folder n bucket use_imgs pre ts img_idx (ia # ias) st =
     (case process_image R H folder n bucket use_imgs pre ts img_idx ia st of
        Inl e \<Rightarrow> Inl e
      | Inr st' \<Rightarrow> image_loop R H folder n bucket use_imgs pre ts (Suc img_idx) ias st')"

record generation_details =
  use_keyframes :: bool
  aspect_ratio :: string
  duration_setting :: string
  resolution :: string

record generation_report =
  report_timestamp :: string
  report_timestamp_iso :: string
  report_s3_bucket :: string
  report_s3_prefix :: string
  total_images_processed :: nat
  videos_per_image :: int
  total_attempted :: nat
  successful_count :: nat
  failed_count :: nat
  report_successful_videos :: "job_result list"
  report_failed_videos :: "job_result list"
  details :: generation_details

text \<open>The session manifest (\<open>session_data\<close>), written to two files.\<close>

record session_data =
  session_timestamp :: string
  session_timestamp_iso :: string
  session_videos :: "string list"
  generation_report_name :: string

text \<open>
  What a JSON file holds: a report, a manifest, or nothing yet (\<open>Truncated\<close>: the empty
  file that \<open>open(path, 'w')\<close> leaves until \<open>json.dump\<close> has written).
\<close>

datatype file_content = ReportFile generation_report | SessionFile session_data | Truncated

type_synonym files = "string \<rightharpoonup> file_content"

definition write_json_states :: "string \<Rightarrow> file_content \<Rightarrow> files \<Rightarrow> files list" where
  \<comment> \<open>the files during \<open>with open(p, 'w') as f: json.dump(c, f)\<close>: after the open, after the dump\<close>
  "write_json_states p c fs = [fs(p \<mapsto> Truncated), fs(p \<mapsto> c)]"

definition write_json :: "string \<Rightarrow> file_content \<Rightarrow> files \<Rightarrow> files" where
  \<comment> \<open>the files when the \<open>with\<close> block is left\<close>
  "write_json p c fs = last (write_json_states p c fs)"

definition report_file_of :: "string \<Rightarrow> string \<Rightarrow> string" where
  "report_file_of folder ts =
     path_join (path_join folder ''generated_ads'') (''generation_report_'' @ ts @ ''.json'')"

definition session_file_of :: "string \<Rightarrow> string \<Rightarrow> string" where
  "session_file_of folder ts =
     path_join (path_join folder ''generated_ads'') (''session_videos_'' @ ts @ ''.json'')"

definition latest_session_file_of :: "string \<Rightarrow> string" where
  "latest_session_file_of folder =
     path_join (path_join folder ''generated_ads'') ''latest_session_videos.json''"

definition make_report ::
  "host \<Rightarrow> string \<Rightarrow> string \<Rightarrow> int \<Rightarrow> bool \<Rightarrow> nat \<Rightarrow> gen_state \<Rightarrow> generation_report" where
  "make_report H ts bucket n use_imgs n_images st =
     \<lparr>report_timestamp = ts, report_timestamp_iso = now_isoformat H 0,
      report_s3_bucket = bucket, report_s3_prefix = ''luma-videos/'' @ ts,
      total_images_processed = n_images, videos_per_image = n,
      total_attempted = total_video_index st,
      successful_count = length (successful_videos st),
      failed_count = length (failed_videos st),
      report_successful_videos = successful_videos st,
      report_failed_videos = failed_videos st,
      details = \<lparr>use_keyframes = use_imgs, aspect_ratio = ''16:9'',
                 duration_setting = ''5s'', resolution = ''720p''\<rparr>\<rparr>"

definition collect_session_videos :: "job_result list \<Rightarrow> string list" where
  \<comment> \<open>the names of the results that have the key \<open>local_filename\<close>, in order\<close>
  "collect_session_videos vs = List.map_filter (\<lambda>v. map_option path_name (local_filename v)) vs"

definition initial_state :: gen_state where
  "initial_state = \<lparr>successful_videos = [], failed_videos = [], total_video_index = 0, trace = []\<rparr>"

definition session_id :: "host \<Rightarrow> string option \<Rightarrow> string" where
  \<comment> \<open>the timestamp given, if it is not empty, or else the time now\<close>
  "session_id H session_ts =
     (case session_ts of
        None \<Rightarrow> now_strftime H
      | Some t \<Rightarrow> if t = [] then now_strftime H else t)"

definition report_summary ::
  "exn + generation_report option \<Rightarrow> (string \<times> nat \<times> nat \<times> nat \<times> string list) option" where
  \<comment> \<open>of a returned report: its timestamp, its three counts and the names retrieved\<close>
  "report_summary res =
     (case res of
        Inr (Some rep) \<Rightarrow>
          Some (report_timestamp rep, total_attempted rep, successful_count rep, failed_count rep,
                collect_session_videos (report_successful_videos rep))
      | _ \<Rightarrow> None)"

definition failed_errors :: "exn + generation_report option \<Rightarrow> string option list" where
  \<comment> \<open>the error texts of the failed results of a returned report, in order\<close>
  "failed_errors res =
     (case res of Inr (Some rep) \<Rightarrow> map error (report_failed_videos rep) | _ \<Rightarrow> [])"

text \<open>
  \<open>generate_ads\<close> returns the report, None when no bucket is given, or raises (\<open>Inl\<close>);
  with it come the files (the JSON files it writes) and the events in the order they
  happen. Writing a file is taken to succeed.
\<close>

definition generate_ads ::
  "remote \<Rightarrow> host \<Rightarrow> string \<Rightarrow> int \<Rightarrow> string option \<Rightarrow> bool \<Rightarrow> string option \<Rightarrow> files
     \<Rightarrow> (exn + generation_report option) \<times> files \<times> event list" where
  "generate_ads R H folder n s3_bucket_arg use_imgs session_ts fs =
     (if \<not> truthy s3_bucket_arg then (Inr None, fs, [])
      else
        (let bucket = (case s3_bucket_arg of None \<Rightarrow> [] | Some b \<Rightarrow> b)
         in case load_prompts (prompts_file H) of
              Inl e \<Rightarrow> (Inl e, fs, [])
            | Inr per_image_analyses \<Rightarrow>
                (let ts = session_id H session_ts;
                     pre = ''luma-videos/'' @ ts
                 in case image_loop R H folder n bucket use_imgs pre ts 1 per_image_analyses
                           initial_state of
                      Inl e \<Rightarrow> (Inl e, fs, [])
                    | Inr st \<Rightarrow>
                        (let report =
                               make_report H ts bucket n use_imgs (length per_image_analyses) st;
                             report_file = report_file_of folder ts;
                             fs1 = write_json report_file (ReportFile report) fs;
                             names = collect_session_videos (successful_videos st)
                         in if names \<noteq> [] then
                              (let sd = \<lparr>session_timestamp = ts,
                                         session_timestamp_iso = now_isoformat H 1,
                                         session_videos = names,
                                         generation_report_name = path_name report_file\<rparr>;
                                   session_file = session_file_of folder ts;
                                   latest_file = latest_session_file_of folder
                               in (Inr (Some report),
                                   write_json latest_file (SessionFile sd)
                                     (write_json session_file (SessionFile sd) fs1),
                                   trace st @ [WriteFile report_file, WriteFile session_file,
                                               WriteFile latest_file]))
                            else
                              (Inr (Some report), fs1, trace st @ [WriteFile report_file])))))"

text \<open>
  The files as they are, one state after the other, while a session that returns a report
  writes them (lines 380 to 411): the report, then, if any video was retrieved, the
  session file and \<open>latest_session_videos.json\<close>, each opened for writing and then
  dumped. The last state is the one \<open>generate_ads\<close> leaves.
\<close>

definition files_during ::
  "remote \<Rightarrow> host \<Rightarrow> string \<Rightarrow> int \<Rightarrow> string option \<Rightarrow> bool \<Rightarrow> string option \<Rightarrow> files
     \<Rightarrow> files list" where
  "files_during R H folder n s3_bucket_arg use_imgs session_ts fs =
     (case fst (generate_ads R H folder n s3_bucket_arg use_imgs session_ts fs) of
        Inr (Some report) \<Rightarrow>
          (let ts = report_timestamp report;
               report_file = report_file_of folder ts;
               fs1 = write_json report_file (ReportFile report) fs;
               names = collect_session_videos (report_successful_videos report)
           in write_json_states report_file (ReportFile report) fs
              @ (if names \<noteq> [] then
                   (let sd = \<lparr>session_timestamp = ts,
                              session_timestamp_iso = now_isoformat H 1,
                              session_videos = names,
                              generation_report_name = path_name report_file\<rparr>;
                        session_file = session_file_of folder ts;
                        latest_file = latest_session_file_of folder
                    in write_json_states session_file (SessionFile sd) fs1
                       @ write_json_states latest_file (SessionFile sd)
                           (write_json session_file (SessionFile sd) fs1))
                 else []))
      | _ \<Rightarrow> [])"


text \<open>
  What holds of the loop state after every job: the counter is the number of results;
  a result in \<open>successful_videos\<close> has \<open>success\<close> true and one retrieval of its job in
  the trace, a result in \<open>failed_videos\<close> has \<open>success\<close> false and none; no job
  beyond the counter was retrieved, and no file was written.
\<close>

definition session_inv :: "gen_state \<Rightarrow> bool" where
  "session_inv st =
     (total_video_index st = length (successful_videos st) + length (failed_videos st)
      \<and> (\<forall>r \<in> set (successful_videos st).
            success r \<and> video_index r \<le> total_video_index st
            \<and> retrievals (video_index r) (trace st) = 1)
      \<and> (\<forall>r \<in> set (failed_videos st).
            \<not> success r \<and> video_index r \<le> total_video_index st
            \<and> retrievals (video_index r) (trace st) = 0)
      \<and> (\<forall>k. total_video_index st < k \<longrightarrow> retrievals k (trace st) = 0)
      \<and> (\<forall>e \<in> set (trace st). \<not> is_write e))"







text \<open>
  Sessions run one after the other on the same files; each has its own remote answers,
  host and arguments.
\<close>

record session_run =
  run_remote :: remote
  run_host :: host
  run_folder :: string
  run_num_videos :: int
  run_s3_bucket :: "string option"
  run_use_images :: bool
  run_timestamp :: "string option"

definition run_session :: "session_run \<Rightarrow> files \<Rightarrow> files" where
  "run_session s fs =
     fst (snd (generate_ads (run_remote s) (run_host s) (run_folder s) (run_num_videos s)
                 (run_s3_bucket s) (run_use_images s) (run_timestamp s) fs))"

definition run_sessions :: "session_run list \<Rightarrow> files \<Rightarrow> files" where
  "run_sessions ss fs = fold run_session ss fs"


section \<open>merge\_videos.py: probing and the transition path\<close>

text \<open>
  Durations and the transition duration are floats in the source; they are modelled as
  rationals. A stream of the ffprobe output has the optional keys \<open>codec_type\<close>,
  \<open>width\<close>, \<open>height\<close> and \<open>duration\<close>; the duration is absent, a text that
  \<open>float()\<close> reads, or one it rejects.
\<close>

datatype duration_field = DurAbsent | DurValue rat | DurBad

record stream =
  codec_type :: "string option"
  stream_width :: "int option"
  stream_height :: "int option"
  stream_duration :: duration_field

datatype ffprobe_result =
    ProbeRaises exn
  | ProbeExit int "stream list option"
  \<comment> \<open>the return code, and the streams of the parsed output (None: not JSON)\<close>

record video_info =
  width :: int
  height :: int
  duration :: rat

datatype filter =
    Scale_decrease int int
  | Pad_centered int int
  | Setsar nat
  | Fade_in rat rat
  | Fade_out rat rat

text \<open>
  An entry of \<open>filter_complex\<close>, with its structure in place of its text:
  \<open>Chain i fs j\<close> is \<open>[i:v]\<close>, the filters \<open>fs\<close> separated by commas, \<open>[vj]\<close>, where
  \<open>Scale_decrease w h\<close> is \<open>scale=w:h:force_original_aspect_ratio=decrease\<close>,
  \<open>Pad_centered w h\<close> is \<open>pad=w:h:(ow-iw)/2:(oh-ih)/2\<close>, \<open>Setsar 1\<close> is \<open>setsar=1\<close>,
  \<open>Fade_in st d\<close> is \<open>fade=t=in:st=st:d=d\<close> and \<open>Fade_out st d\<close> is
  \<open>fade=t=out:st=st:d=d\<close>; \<open>Concat_filter js n\<close> is the labels \<open>[vj]\<close> followed by
  \<open>concat=n=n:v=1:a=0[outv]\<close>.
\<close>

datatype filter_entry = Chain nat "filter list" nat | Concat_filter "nat list" nat

datatype ffmpeg_cmd =
    Concat_copy "string list" string
  | Filter_cmd "string list" "filter_entry list" string

record media =
  ffmpeg_installed :: bool
  ffprobe :: "string \<Rightarrow> ffprobe_result"
  run_ffmpeg :: "ffmpeg_cmd \<Rightarrow> exn + int"
  file_exists :: "string \<Rightarrow> bool"
  now_stamp :: string

fun first_video_stream :: "stream list \<Rightarrow> video_info option" where
  \<comment> \<open>the loop over the streams; a missing \<open>codec_type\<close> and a bad duration raise, caught\<close>
  "first_video_stream [] = None"
| "first_video_stream (s # ss) =
     (case codec_type s of
        None \<Rightarrow> None
      | Some t \<Rightarrow>
          if t = ''video'' then
            (case stream_duration s of
               DurBad \<Rightarrow> None
             | DurAbsent \<Rightarrow>
                 Some \<lparr>width = (case stream_width s of None \<Rightarrow> 0 | Some w \<Rightarrow> w),
                       height = (case stream_height s of None \<Rightarrow> 0 | Some h \<Rightarrow> h),
                       duration = 0\<rparr>
             | DurValue d \<Rightarrow>
                 Some \<lparr>width = (case stream_width s of None \<Rightarrow> 0 | Some w \<Rightarrow> w),
                       height = (case stream_height s of None \<Rightarrow> 0 | Some h \<Rightarrow> h),
                       duration = d\<rparr>)
          else first_video_stream ss)"

definition get_video_info :: "media \<Rightarrow> string \<Rightarrow> video_info option" where
  "get_video_info M video_path =
     (case ffprobe M video_path of
        ProbeRaises e \<Rightarrow> None
      | ProbeExit rc out \<Rightarrow>
          if rc = 0 then (case out of None \<Rightarrow> None | Some streams \<Rightarrow> first_video_stream streams)
          else None)"

definition segment_chain ::
  "media \<Rightarrow> string list \<Rightarrow> rat \<Rightarrow> int \<Rightarrow> int \<Rightarrow> nat \<Rightarrow> filter_entry" where
  \<comment> \<open>one iteration of \<open>for i in range(len(video_files))\<close>\<close>
  "segment_chain M video_files transition_duration target_width target_height i =
     Chain i
       ([Scale_decrease target_width target_height, Pad_centered target_width target_height,
         Setsar 1]
        @ (if i > 0 then [Fade_in 0 transition_duration] else [])
        @ (if int i < int (length video_files) - 1 then
             (case get_video_info M (video_files ! i) of
                None \<Rightarrow> []
              | Some info \<Rightarrow>
                  if duration info > 0
                  then [Fade_out (duration info - transition_duration) transition_duration]
                  else [])
           else []))
       i"





section \<open>merge\_videos.py: which segments are merged\<close>







datatype message =
    Using_session_timestamp string
  | Found_session_file nat
  | Looking_for_timestamp string
  | Falling_back_to_all
  | Merging_all




record resolution_result =
  video_files :: "string list"
  session_only_flag :: bool
  session_timestamp_used :: "string option"
  messages :: "message list"







section \<open>Example inputs\<close>

text \<open>
  A remote service given by what it answers to the submission of job \<open>k\<close>, to poll
  number \<open>attempt\<close> of job \<open>k\<close> and to the listing for job \<open>k\<close>; downloads succeed.
\<close>

definition example_remote ::
  "(nat \<Rightarrow> exn + start_response) \<Rightarrow> (nat \<Rightarrow> nat \<Rightarrow> exn + status_response)
     \<Rightarrow> (nat \<Rightarrow> exn + string list option) \<Rightarrow> remote" where
  "example_remote start poll listing =
     \<lparr>uuid4 = (\<lambda>k. ''job''),
      start_async_invoke = (\<lambda>k inp uri. start k),
      get_async_invoke = (\<lambda>k attempt arn. poll k attempt),
      elapsed_time = (\<lambda>k attempt. 10 * (of_nat attempt + 1)),
      list_objects_v2 = (\<lambda>k bucket pre. listing k),
      download_file = (\<lambda>k bucket key path. Inr ())\<rparr>"

definition started :: "exn + start_response" where
  "started = Inr \<lparr>invocationArn = Some ''arn:1''\<rparr>"

definition in_progress :: "exn + status_response" where
  "in_progress = Inr \<lparr>status = Some ''InProgress'', s3Uri = Inl (key_error ''outputDataConfig''),
                      failureReason = None\<rparr>"

definition completed :: "exn + status_response" where
  "completed = Inr \<lparr>status = Some ''Completed'', s3Uri = Inr ''s3://bkt/luma-videos/T/job/'',
                     failureReason = None\<rparr>"

definition failed :: "exn + status_response" where
  "failed = Inr \<lparr>status = Some ''Failed'', s3Uri = Inl (key_error ''outputDataConfig''),
                  failureReason = Some ''quota exceeded''\<rparr>"


text \<open>A host with two analysed images of three prompts each.\<close>

definition example_prompts :: "prompt_data list" where
  "example_prompts =
     [PromptDict (Some ''orbit the shoe'') (Some ''Hero Showcase''),
      PromptDict (Some ''runner at dawn'') (Some ''Lifestyle Focus''),
      PromptDict (Some ''macro on the sole'') (Some ''Technical Detail'')]"

definition example_host :: "string \<Rightarrow> host" where
  "example_host stamp =
     \<lparr>prompts_file =
        PerImage [\<lparr>image_filename = Some ''shoe.jpg'', video_prompts = Some example_prompts\<rparr>,
                  \<lparr>image_filename = Some ''bag.jpg'', video_prompts = Some example_prompts\<rparr>],
      image_exists = (\<lambda>p. True),
      encode_image_for_luma = (\<lambda>p. Some ''base64''),
      now_strftime = stamp,
      now_isoformat = (\<lambda>k. ''2024-01-01T12:00:00'')\<rparr>"

definition listed :: "exn + string list option" where
  "listed = Inr (Some [''luma-videos/T/job/output.mp4''])"

definition all_complete :: remote where
  \<comment> \<open>every job completes at its first poll and its video is found\<close>
  "all_complete = example_remote (\<lambda>k. started) (\<lambda>k a. completed) (\<lambda>k. listed)"

definition none_retrieved :: remote where
  \<comment> \<open>job 1 fails, the others complete, and no video is found for any of them\<close>
  "none_retrieved =
     example_remote (\<lambda>k. started) (\<lambda>k a. if k = 1 then failed else completed)
       (\<lambda>k. Inr None)"

definition mixed :: remote where
  \<comment> \<open>job 2 fails, the submission of job 4 raises, the video of job 5 is not found\<close>
  "mixed =
     example_remote (\<lambda>k. if k = 4 then Inl ''ThrottlingException'' else started)
       (\<lambda>k a. if k = 2 then failed else completed)
       (\<lambda>k. if k = 5 then Inr None else listed)"


definition fail_and_timeout :: remote where
  \<comment> \<open>job 4 fails at its third poll, job 5 never leaves \<open>InProgress\<close>, the others complete\<close>
  "fail_and_timeout =
     example_remote (\<lambda>k. started)
       (\<lambda>k a. if k = 4 then (if a < 2 then in_progress else failed)
              else if k = 5 then in_progress else completed)
       (\<lambda>k. listed)"

definition session_a :: session_run where
  "session_a =
     \<lparr>run_remote = all_complete, run_host = example_host ''20240101_120000'',
      run_folder = ''ads'', run_num_videos = 3, run_s3_bucket = Some ''bkt'',
      run_use_images = True, run_timestamp = None\<rparr>"

definition session_b :: session_run where
  "session_b =
     \<lparr>run_remote = none_retrieved, run_host = example_host ''20240102_090000'',
      run_folder = ''ads'', run_num_videos = 3, run_s3_bucket = Some ''bkt'',
      run_use_images = True, run_timestamp = None\<rparr>"

definition session_c :: session_run where
  "session_c =
     \<lparr>run_remote = mixed, run_host = example_host ''20240103_090000'',
      run_folder = ''ads'', run_num_videos = 3, run_s3_bucket = Some ''bkt'',
      run_use_images = True, run_timestamp = None\<rparr>"












section \<open>Properties of paths\<close>

lemma split_on_nonempty: "split_on c s \<noteq> []"
  by (induction s) (auto split: list.splits)

lemma split_on_no_sep: "x \<in> set (split_on c s) \<Longrightarrow> c \<notin> set x"
proof (induction s arbitrary: x)
  case Nil
  then show ?case by simp
next
  case (Cons a s)
  then show ?case
    using split_on_nonempty [of c s]
    by (cases "split_on c s") (auto split: if_splits)
qed

lemma split_on_none: "c \<notin> set s \<Longrightarrow> split_on c s = [s]"
  by (induction s) auto

lemma split_on_append:
  "c \<notin> set a \<Longrightarrow> split_on c (a @ c # s) = a # split_on c s"
  by (induction a) auto

lemma split_on_join:
  "ps \<noteq> [] \<Longrightarrow> \<forall>p \<in> set ps. CHR ''/'' \<notin> set p \<Longrightarrow> split_on CHR ''/'' (join_parts ps) = ps"
proof (induction ps rule: join_parts.induct)
  case 1
  then show ?case by simp
next
  case (2 c)
  then show ?case by (simp add: split_on_none)
next
  case (3 c d ds)
  then show ?case by (simp add: split_on_append)
qed

lemma normal_path_parts: "normal_parts (path_parts p)"
  by (auto simp: normal_parts_def path_parts_def dest: split_on_no_sep)

lemma normal_parts_append: "normal_parts (ps @ qs) = (normal_parts ps \<and> normal_parts qs)"
  by (auto simp: normal_parts_def)

lemma path_parts_join: "normal_parts ps \<Longrightarrow> path_parts (join_parts ps) = ps"
proof (cases "ps = []")
  case True
  then show ?thesis by (simp add: path_parts_def)
next
  case False
  assume "normal_parts ps"
  then have "\<forall>p \<in> set ps. CHR ''/'' \<notin> set p" and f: "filter (\<lambda>c. c \<noteq> [] \<and> c \<noteq> ''.'') ps = ps"
    by (auto simp: normal_parts_def)
  with False show ?thesis by (simp add: path_parts_def split_on_join)
qed

lemma path_parts_slash: "path_parts (CHR ''/'' # s) = path_parts s"
  by (simp add: path_parts_def)

lemma root_cases: "path_root p = [] \<or> path_root p = ''/'' \<or> path_root p = ''//''"
  by (simp add: path_root_def)

lemma path_parts_make:
  assumes "normal_parts ps" and "ps \<noteq> []"
  shows "path_parts (make_path (path_root d) ps) = ps"
  using root_cases [of d] assms
  by (auto simp: make_path_def path_parts_slash path_parts_join)




lemma path_root_head: "path_root (c # s) = [] \<longleftrightarrow> c \<noteq> CHR ''/''"
  by (auto simp: path_root_def)

lemma path_parts_first:
  assumes "c \<noteq> CHR ''/''" and "c \<noteq> CHR ''.''"
  shows "\<exists>x xs. path_parts (c # s) = (c # x) # xs \<and> path_root (c # s) = []"
proof -
  obtain y ys where "split_on CHR ''/'' s = y # ys"
    using split_on_nonempty [of "CHR ''/''" s] by (cases "split_on CHR ''/'' s") auto
  with assms show ?thesis by (simp add: path_parts_def path_root_def)
qed

lemma path_join_first:
  assumes "c \<noteq> CHR ''/''" and "c \<noteq> CHR ''.''"
  shows "hd (path_parts (path_join d (c # s)) ! length (path_parts d)) = c"
proof -
  from path_parts_first [OF assms, of s] obtain x xs where
    p: "path_parts (c # s) = (c # x) # xs" and r: "path_root (c # s) = []"
    by blast
  have n: "normal_parts (path_parts d @ (c # x) # xs)"
    using normal_path_parts [of d] normal_path_parts [of "c # s"]
    by (simp add: normal_parts_append p)
  have "path_join d (c # s) = make_path (path_root d) (path_parts d @ (c # x) # xs)"
    by (simp add: path_join_def p r)
  with path_parts_make [OF n, of d] show ?thesis by simp
qed

lemma path_join_distinct:
  assumes "c \<noteq> CHR ''/''" and "c \<noteq> CHR ''.''" and "c' \<noteq> CHR ''/''" and "c' \<noteq> CHR ''.''"
    and "c \<noteq> c'"
  shows "path_join d (c # s) \<noteq> path_join d (c' # s')"
  using path_join_first [OF assms(1,2), of d s] path_join_first [OF assms(3,4), of d s'] assms(5)
  by auto


section \<open>Properties of the job tracker\<close>

lemma poll_loop_events:
  "polls (snd (poll_loop R p img vi jid arn n a)) \<le> n \<and>
   slept (snd (poll_loop R p img vi jid arn n a)) = poll_delay * polls (snd (poll_loop R p img vi jid arn n a))"
proof (induction n arbitrary: a)
  case 0
  show ?case by (simp add: polls_def slept_def)
next
  case (Suc n)
  from Suc.IH [of "Suc a"] show ?case
    by (auto simp: polls_def slept_def split: sum.splits option.splits prod.splits)
qed

lemma poll_loop_pending:
  "(\<forall>j<n. pending (get_async_invoke R vi (a + j) arn)) \<Longrightarrow>
   fst (poll_loop R p img vi jid arn n a) = Inr (timeout_result p img vi) \<and>
   polls (snd (poll_loop R p img vi jid arn n a)) = n"
proof (induction n arbitrary: a)
  case 0
  show ?case by (simp add: polls_def)
next
  case (Suc n)
  have now: "pending (get_async_invoke R vi a arn)"
    using Suc.prems [rule_format, of 0] by simp
  have later: "\<forall>j<n. pending (get_async_invoke R vi (Suc a + j) arn)"
    using Suc.prems by (metis Suc_less_eq add_Suc_shift)
  from Suc.IH [OF later] now show ?case
    by (auto simp: pending_def polls_def split: sum.splits option.splits prod.splits)
qed

lemma poll_loop_raises:
  "k < n \<Longrightarrow> (\<forall>j<k. pending (get_async_invoke R vi (a + j) arn)) \<Longrightarrow>
   get_async_invoke R vi (a + k) arn = Inl e \<Longrightarrow>
   fst (poll_loop R p img vi jid arn n a) = Inl e"
proof (induction n arbitrary: a k)
  case 0
  then show ?case by simp
next
  case (Suc n)
  show ?case
  proof (cases k)
    case 0
    with Suc.prems show ?thesis by simp
  next
    case (Suc k')
    have now: "pending (get_async_invoke R vi a arn)"
      using Suc.prems(2) [rule_format, of 0] Suc by simp
    have later: "\<forall>j<k'. pending (get_async_invoke R vi (Suc a + j) arn)"
      using Suc.prems(2) Suc by (metis Suc_less_eq add_Suc_shift)
    have "fst (poll_loop R p img vi jid arn n (Suc a)) = Inl e"
      using Suc.IH [of k' "Suc a"] Suc.prems Suc later by simp
    with now show ?thesis
      by (auto simp: pending_def split: sum.splits option.splits prod.splits)
  qed
qed

lemma poll_loop_terminal:
  "poll_loop R p img vi jid arn n a = (Inr r, evs) \<Longrightarrow>
   (success r \<and> s3_location r \<noteq> None \<and> error r = None) \<or> (\<not> success r \<and> error r \<noteq> None)"
proof (induction n arbitrary: a evs)
  case 0
  then show ?case by (auto simp: timeout_result_def base_result_def)
next
  case (Suc n)
  show ?case
  proof (cases "pending (get_async_invoke R vi a arn)")
    case True
    then obtain evs' where "poll_loop R p img vi jid arn n (Suc a) = (Inr r, evs')"
      using Suc.prems
      by (auto simp: pending_def split: sum.splits option.splits prod.splits if_splits)
    then show ?thesis by (rule Suc.IH)
  next
    case False
    with Suc.prems show ?thesis
      by (auto simp: pending_def failed_result_def completed_result_def base_result_def
          split: sum.splits option.splits if_splits)
  qed
qed


lemma try_block_terminal:
  assumes "try_block R p b pre vi kf img = (Inr r, evs)"
  shows "(success r \<and> s3_location r \<noteq> None \<and> error r = None) \<or> (\<not> success r \<and> error r \<noteq> None)"
proof -
  from assms obtain arn evs' where
    "poll_loop R p img vi (uuid4 R vi) arn max_attempts 0 = (Inr r, evs')"
    by (auto simp: try_block_def Let_def split: sum.splits option.splits prod.splits)
  then show ?thesis by (rule poll_loop_terminal)
qed

lemma try_block_started:
  assumes "start_async_invoke R vi (make_model_input p kf) (s3_output_uri b pre (uuid4 R vi)) = Inr resp"
    and "invocationArn resp = Some arn"
  shows "fst (try_block R p b pre vi kf img) = fst (poll_loop R p img vi (uuid4 R vi) arn max_attempts 0)"
    and "snd (try_block R p b pre vi kf img) =
           Submit vi (make_model_input p kf) (s3_output_uri b pre (uuid4 R vi))
             # snd (poll_loop R p img vi (uuid4 R vi) arn max_attempts 0)"
  using assms by (simp_all add: try_block_def Let_def split: prod.splits)

lemma generate_video_async_fst:
  "fst (generate_video_async R p b pre vi kf img) =
     (case fst (try_block R p b pre vi kf img) of
        Inl e \<Rightarrow> exception_result p img vi e
      | Inr r \<Rightarrow> r)"
  by (simp add: generate_video_async_def split: prod.splits sum.splits)

lemma generate_video_async_snd:
  "snd (generate_video_async R p b pre vi kf img) = snd (try_block R p b pre vi kf img)"
  by (simp add: generate_video_async_def split: prod.splits sum.splits)


lemma generate_video_async_terminal:
  "(success (fst (generate_video_async R p b pre vi kf img))
    \<and> s3_location (fst (generate_video_async R p b pre vi kf img)) \<noteq> None
    \<and> error (fst (generate_video_async R p b pre vi kf img)) = None)
   \<or> (\<not> success (fst (generate_video_async R p b pre vi kf img))
       \<and> error (fst (generate_video_async R p b pre vi kf img)) \<noteq> None)"
proof (cases "try_block R p b pre vi kf img")
  case (Pair res evs)
  show ?thesis
  proof (cases res)
    case (Inl e)
    with Pair show ?thesis
      by (simp add: generate_video_async_def exception_result_def base_result_def)
  next
    case (Inr r)
    with Pair try_block_terminal [of R p b pre vi kf img r evs] show ?thesis
      by (simp add: generate_video_async_def)
  qed
qed

lemma poll_loop_failed:
  "k < n \<Longrightarrow> (\<forall>j<k. pending (get_async_invoke R vi (a + j) arn)) \<Longrightarrow>
   get_async_invoke R vi (a + k) arn = Inr sr \<Longrightarrow> status sr = Some ''Failed'' \<Longrightarrow>
   fst (poll_loop R p img vi jid arn n a) = Inr (failed_result p img vi sr) \<and>
   polls (snd (poll_loop R p img vi jid arn n a)) = Suc k"
proof (induction n arbitrary: a k)
  case 0
  then show ?case by simp
next
  case (Suc n)
  show ?case
  proof (cases k)
    case 0
    with Suc.prems show ?thesis by (simp add: polls_def)
  next
    case (Suc k')
    have now: "pending (get_async_invoke R vi a arn)"
      using Suc.prems(2) [rule_format, of 0] Suc by simp
    have later: "\<forall>j<k'. pending (get_async_invoke R vi (Suc a + j) arn)"
      using Suc.prems(2) Suc by (metis Suc_less_eq add_Suc_shift)
    have "fst (poll_loop R p img vi jid arn n (Suc a)) = Inr (failed_result p img vi sr) \<and>
          polls (snd (poll_loop R p img vi jid arn n (Suc a))) = Suc k'"
      using Suc.IH [of k' "Suc a"] Suc.prems Suc later by simp
    with now Suc show ?thesis
      by (auto simp: pending_def polls_def split: sum.splits option.splits prod.splits)
  qed
qed

lemma exception_result_fields:
  "\<not> success (exception_result p img vi e)"
  "error (exception_result p img vi e) = Some (''Error generating video: '' @ e)"
  "prompt (exception_result p img vi e) = p"
  "source_image (exception_result p img vi e) = img"
  "video_index (exception_result p img vi e) = vi"
  "s3_location (exception_result p img vi e) = None"
  by (simp_all add: exception_result_def base_result_def)

lemma failed_result_fields:
  "\<not> success (failed_result p img vi sr)"
  "error (failed_result p img vi sr) =
     Some (''Generation failed: '' @
           (case failureReason sr of None \<Rightarrow> ''No failureReason provided'' | Some m \<Rightarrow> m))"
  "full_error_response (failed_result p img vi sr) = Some sr"
  by (simp_all add: failed_result_def base_result_def)

lemma timeout_result_fields:
  "\<not> success (timeout_result p img vi)"
  "error (timeout_result p img vi) = Some ''Generation timed out after maximum attempts''"
  by (simp_all add: timeout_result_def base_result_def)

text \<open>
  C3: \<open>generate_video_async\<close> never raises for a failure of the remote side. An
  exception with text \<open>e\<close> that leaves its \<open>try\<close> block becomes a result dict whose
  \<open>success\<close> is false and whose \<open>error\<close> is \<open>Error generating video: \<close> followed by
  \<open>e\<close>, with the prompt, the source image and the video index of the call. This is the
  result when the submission raises \<open>e\<close>, when the submission answers without an
  \<open>invocationArn\<close> (the KeyError), and when poll number \<open>k\<close> raises \<open>e\<close> after \<open>k\<close>
  polls that were still pending. Whatever the remote side answers, the result is
  terminal: a success with its S3 location, or a failure with its error text.
\<close>

theorem generate_video_async_never_raises:
  "(\<forall>e evs. try_block R p b pre vi kf img = (Inl e, evs) \<longrightarrow>
      generate_video_async R p b pre vi kf img = (exception_result p img vi e, evs))
   \<and> (\<forall>e. \<not> success (exception_result p img vi e)
          \<and> error (exception_result p img vi e) = Some (''Error generating video: '' @ e)
          \<and> s3_location (exception_result p img vi e) = None
          \<and> prompt (exception_result p img vi e) = p
          \<and> source_image (exception_result p img vi e) = img
          \<and> video_index (exception_result p img vi e) = vi)
   \<and> (\<forall>e. start_async_invoke R vi (make_model_input p kf) (s3_output_uri b pre (uuid4 R vi)) = Inl e
        \<longrightarrow> fst (generate_video_async R p b pre vi kf img) = exception_result p img vi e
            \<and> \<not> success (fst (generate_video_async R p b pre vi kf img))
            \<and> error (fst (generate_video_async R p b pre vi kf img))
                = Some (''Error generating video: '' @ e))
   \<and> (\<forall>resp.
        start_async_invoke R vi (make_model_input p kf) (s3_output_uri b pre (uuid4 R vi)) = Inr resp
        \<and> invocationArn resp = None
        \<longrightarrow> \<not> success (fst (generate_video_async R p b pre vi kf img))
            \<and> error (fst (generate_video_async R p b pre vi kf img))
                = Some (''Error generating video: '' @ key_error ''invocationArn''))
   \<and> (\<forall>resp arn k e.
        start_async_invoke R vi (make_model_input p kf) (s3_output_uri b pre (uuid4 R vi)) = Inr resp
        \<and> invocationArn resp = Some arn \<and> k < max_attempts
        \<and> (\<forall>j<k. pending (get_async_invoke R vi j arn))
        \<and> get_async_invoke R vi k arn = Inl e
        \<longrightarrow> fst (generate_video_async R p b pre vi kf img) = exception_result p img vi e
            \<and> \<not> success (fst (generate_video_async R p b pre vi kf img))
            \<and> error (fst (generate_video_async R p b pre vi kf img))
                = Some (''Error generating video: '' @ e))
   \<and> ((success (fst (generate_video_async R p b pre vi kf img))
        \<and> s3_location (fst (generate_video_async R p b pre vi kf img)) \<noteq> None
        \<and> error (fst (generate_video_async R p b pre vi kf img)) = None)
       \<or> (\<not> success (fst (generate_video_async R p b pre vi kf img))
           \<and> error (fst (generate_video_async R p b pre vi kf img)) \<noteq> None))"
proof -
  have c1: "\<forall>e evs. try_block R p b pre vi kf img = (Inl e, evs) \<longrightarrow>
      generate_video_async R p b pre vi kf img = (exception_result p img vi e, evs)"
    by (simp add: generate_video_async_def)
  have c2: "\<forall>e. \<not> success (exception_result p img vi e)
          \<and> error (exception_result p img vi e) = Some (''Error generating video: '' @ e)
          \<and> s3_location (exception_result p img vi e) = None
          \<and> prompt (exception_result p img vi e) = p
          \<and> source_image (exception_result p img vi e) = img
          \<and> video_index (exception_result p img vi e) = vi"
    by (simp add: exception_result_fields)
  have c3: "\<forall>e. start_async_invoke R vi (make_model_input p kf) (s3_output_uri b pre (uuid4 R vi)) = Inl e
        \<longrightarrow> fst (generate_video_async R p b pre vi kf img) = exception_result p img vi e
            \<and> \<not> success (fst (generate_video_async R p b pre vi kf img))
            \<and> error (fst (generate_video_async R p b pre vi kf img))
                = Some (''Error generating video: '' @ e)"
    by (simp add: generate_video_async_def try_block_def exception_result_fields)
  have c4: "\<forall>resp.
        start_async_invoke R vi (make_model_input p kf) (s3_output_uri b pre (uuid4 R vi)) = Inr resp
        \<and> invocationArn resp = None
        \<longrightarrow> \<not> success (fst (generate_video_async R p b pre vi kf img))
            \<and> error (fst (generate_video_async R p b pre vi kf img))
                = Some (''Error generating video: '' @ key_error ''invocationArn'')"
    by (simp add: generate_video_async_def try_block_def exception_result_fields)
  have c5: "\<forall>resp arn k e.
        start_async_invoke R vi (make_model_input p kf) (s3_output_uri b pre (uuid4 R vi)) = Inr resp
        \<and> invocationArn resp = Some arn \<and> k < max_attempts
        \<and> (\<forall>j<k. pending (get_async_invoke R vi j arn))
        \<and> get_async_invoke R vi k arn = Inl e
        \<longrightarrow> fst (generate_video_async R p b pre vi kf img) = exception_result p img vi e
            \<and> \<not> success (fst (generate_video_async R p b pre vi kf img))
            \<and> error (fst (generate_video_async R p b pre vi kf img))
                = Some (''Error generating video: '' @ e)"
  proof (intro allI impI)
    fix resp arn k e
    assume h: "start_async_invoke R vi (make_model_input p kf) (s3_output_uri b pre (uuid4 R vi)) = Inr resp
        \<and> invocationArn resp = Some arn \<and> k < max_attempts
        \<and> (\<forall>j<k. pending (get_async_invoke R vi j arn))
        \<and> get_async_invoke R vi k arn = Inl e"
    then have "fst (poll_loop R p img vi (uuid4 R vi) arn max_attempts 0) = Inl e"
      using poll_loop_raises [of k max_attempts R vi 0 arn e p img "uuid4 R vi"] by simp
    with h have "fst (generate_video_async R p b pre vi kf img) = exception_result p img vi e"
      by (simp add: generate_video_async_fst try_block_started(1) [of R vi p kf b pre resp arn])
    then show "fst (generate_video_async R p b pre vi kf img) = exception_result p img vi e
            \<and> \<not> success (fst (generate_video_async R p b pre vi kf img))
            \<and> error (fst (generate_video_async R p b pre vi kf img))
                = Some (''Error generating video: '' @ e)"
      by (simp add: exception_result_fields)
  qed
  note c6 = generate_video_async_terminal [of R p b pre vi kf img]
  from c1 c2 c3 c4 c5 c6 show ?thesis by (intro conjI)
qed

theorem generate_video_async_never_raises_witness:
  "\<not> success (fst (generate_video_async
                    (example_remote (\<lambda>k. Inl ''ThrottlingException'') (\<lambda>k a. in_progress) (\<lambda>k. Inr None))
                    ''a prompt'' ''bkt'' ''luma-videos/T'' 1 None (Some ''shoe.jpg'')))
   \<and> error (fst (generate_video_async
                    (example_remote (\<lambda>k. Inl ''ThrottlingException'') (\<lambda>k a. in_progress) (\<lambda>k. Inr None))
                    ''a prompt'' ''bkt'' ''luma-videos/T'' 1 None (Some ''shoe.jpg'')))
       = Some ''Error generating video: ThrottlingException''
   \<and> \<not> success (fst (generate_video_async
            (example_remote (\<lambda>k. started) (\<lambda>k a. if a < 2 then in_progress else Inl ''connection reset'') (\<lambda>k. Inr None))
            ''a prompt'' ''bkt'' ''luma-videos/T'' 1 None (Some ''shoe.jpg'')))
   \<and> error (fst (generate_video_async
            (example_remote (\<lambda>k. started) (\<lambda>k a. if a < 2 then in_progress else Inl ''connection reset'') (\<lambda>k. Inr None))
            ''a prompt'' ''bkt'' ''luma-videos/T'' 1 None (Some ''shoe.jpg'')))
       = Some ''Error generating video: connection reset''
   \<and> fst (generate_video_async
            (example_remote (\<lambda>k. started) (\<lambda>k a. if a < 2 then in_progress else Inl ''connection reset'') (\<lambda>k. Inr None))
            ''a prompt'' ''bkt'' ''luma-videos/T'' 1 None (Some ''shoe.jpg''))
       = \<lparr>success = False, s3_location = None, prompt = ''a prompt'',
          source_image = Some ''shoe.jpg'', generation_time = None, job_id = None,
          video_index = 1, error = Some ''Error generating video: connection reset'',
          full_error_response = None, prompt_type = None, image_index = None,
          prompt_index = None, timestamp = None, local_filename = None\<rparr>"
proof -
  note A = generate_video_async_never_raises
          [of "example_remote (\<lambda>k. Inl ''ThrottlingException'') (\<lambda>k a. in_progress) (\<lambda>k. Inr None)"
              "''a prompt''" "''bkt''" "''luma-videos/T''" 1 None "Some ''shoe.jpg''",
           THEN conjunct2, THEN conjunct2, THEN conjunct1, rule_format, of "''ThrottlingException''"]
  note B = generate_video_async_never_raises
          [of "example_remote (\<lambda>k. started) (\<lambda>k a. if a < 2 then in_progress else Inl ''connection reset'') (\<lambda>k. Inr None)"
              "''a prompt''" "''bkt''" "''luma-videos/T''" 1 None "Some ''shoe.jpg''",
           THEN conjunct2, THEN conjunct2, THEN conjunct2, THEN conjunct2, THEN conjunct1, rule_format,
           of "\<lparr>invocationArn = Some ''arn:1''\<rparr>" "''arn:1''" 2 "''connection reset''"]
  have a: "\<not> success (fst (generate_video_async
                    (example_remote (\<lambda>k. Inl ''ThrottlingException'') (\<lambda>k a. in_progress) (\<lambda>k. Inr None))
                    ''a prompt'' ''bkt'' ''luma-videos/T'' 1 None (Some ''shoe.jpg'')))
   \<and> error (fst (generate_video_async
                    (example_remote (\<lambda>k. Inl ''ThrottlingException'') (\<lambda>k a. in_progress) (\<lambda>k. Inr None))
                    ''a prompt'' ''bkt'' ''luma-videos/T'' 1 None (Some ''shoe.jpg'')))
       = Some ''Error generating video: ThrottlingException''"
    using A by (simp add: example_remote_def exception_result_fields)
  have b: "fst (generate_video_async
            (example_remote (\<lambda>k. started) (\<lambda>k a. if a < 2 then in_progress else Inl ''connection reset'') (\<lambda>k. Inr None))
            ''a prompt'' ''bkt'' ''luma-videos/T'' 1 None (Some ''shoe.jpg''))
       = exception_result ''a prompt'' (Some ''shoe.jpg'') 1 ''connection reset''
     \<and> \<not> success (fst (generate_video_async
            (example_remote (\<lambda>k. started) (\<lambda>k a. if a < 2 then in_progress else Inl ''connection reset'') (\<lambda>k. Inr None))
            ''a prompt'' ''bkt'' ''luma-videos/T'' 1 None (Some ''shoe.jpg'')))
     \<and> error (fst (generate_video_async
            (example_remote (\<lambda>k. started) (\<lambda>k a. if a < 2 then in_progress else Inl ''connection reset'') (\<lambda>k. Inr None))
            ''a prompt'' ''bkt'' ''luma-videos/T'' 1 None (Some ''shoe.jpg'')))
       = Some ''Error generating video: connection reset''"
    using B by (simp add: example_remote_def started_def in_progress_def pending_def max_attempts_def
          exception_result_fields)
  from a b show ?thesis
    by (simp add: exception_result_def base_result_def)
qed



lemma poll_loop_index:
  "poll_loop R p img vi jid arn n a = (Inr r, evs) \<Longrightarrow> video_index r = vi"
proof (induction n arbitrary: a evs)
  case 0
  then show ?case by (auto simp: timeout_result_def base_result_def)
next
  case (Suc n)
  show ?case
  proof (cases "pending (get_async_invoke R vi a arn)")
    case True
    then obtain evs' where "poll_loop R p img vi jid arn n (Suc a) = (Inr r, evs')"
      using Suc.prems
      by (auto simp: pending_def split: sum.splits option.splits prod.splits if_splits)
    then show ?thesis by (rule Suc.IH)
  next
    case False
    with Suc.prems show ?thesis
      by (auto simp: pending_def failed_result_def completed_result_def base_result_def
          split: sum.splits option.splits if_splits)
  qed
qed

lemma poll_loop_no_retrieve_write:
  "\<forall>e \<in> set (snd (poll_loop R p img vi jid arn n a)). \<not> is_retrieve k e \<and> \<not> is_write e"
proof (induction n arbitrary: a)
  case 0
  show ?case by simp
next
  case (Suc n)
  from Suc.IH [of "Suc a"] show ?case
    by (auto split: sum.splits option.splits prod.splits)
qed

lemma generate_video_async_index:
  "video_index (fst (generate_video_async R p b pre vi kf img)) = vi"
proof (cases "try_block R p b pre vi kf img")
  case (Pair res evs)
  show ?thesis
  proof (cases res)
    case (Inl e)
    with Pair show ?thesis
      by (simp add: generate_video_async_def exception_result_def base_result_def)
  next
    case (Inr r)
    with Pair obtain arn evs' where
      "poll_loop R p img vi (uuid4 R vi) arn max_attempts 0 = (Inr r, evs')"
      by (auto simp: try_block_def Let_def split: sum.splits option.splits prod.splits)
    then have "video_index r = vi" by (rule poll_loop_index)
    with Pair Inr show ?thesis by (simp add: generate_video_async_def)
  qed
qed

lemma try_block_events:
  "polls (snd (try_block R p b pre vi kf img)) \<le> max_attempts \<and>
   slept (snd (try_block R p b pre vi kf img)) = poll_delay * polls (snd (try_block R p b pre vi kf img)) \<and>
   (\<forall>e \<in> set (snd (try_block R p b pre vi kf img)). \<not> is_retrieve k e \<and> \<not> is_write e)"
proof (cases "start_async_invoke R vi (make_model_input p kf) (s3_output_uri b pre (uuid4 R vi))")
  case (Inl e)
  then show ?thesis by (simp add: try_block_def polls_def slept_def)
next
  case (Inr resp)
  show ?thesis
  proof (cases "invocationArn resp")
    case None
    with Inr show ?thesis by (simp add: try_block_def polls_def slept_def)
  next
    case (Some arn)
    have "snd (try_block R p b pre vi kf img) =
           Submit vi (make_model_input p kf) (s3_output_uri b pre (uuid4 R vi))
             # snd (poll_loop R p img vi (uuid4 R vi) arn max_attempts 0)"
      using Inr Some by (rule try_block_started(2))
    then show ?thesis
      using poll_loop_events [of R p img vi "uuid4 R vi" arn max_attempts 0]
        poll_loop_no_retrieve_write [of R p img vi "uuid4 R vi" arn max_attempts 0 k]
      by (simp add: polls_def slept_def)
  qed
qed

lemma annotate_fields:
  "success (annotate r img ptype i j ts) = success r"
  "s3_location (annotate r img ptype i j ts) = s3_location r"
  "error (annotate r img ptype i j ts) = error r"
  "video_index (annotate r img ptype i j ts) = video_index r"
  "local_filename (annotate r img ptype i j ts) = local_filename r"
  "image_index (annotate r img ptype i j ts) = Some i"
  "prompt_index (annotate r img ptype i j ts) = Some j"
  "prompt_type (annotate r img ptype i j ts) = Some ptype"
  "timestamp (annotate r img ptype i j ts) = Some ts"
  by (simp_all add: annotate_def)

lemma process_prompt_failure:
  assumes "\<not> success (fst (generate_video_async R (prompt_text_of pd) bucket pre
                        (Suc (total_video_index st)) kf (Some img)))"
  shows "process_prompt R bucket pre ts gf i img kf j pd st =
           Inr (st\<lparr>failed_videos := failed_videos st @
                     [annotate (fst (generate_video_async R (prompt_text_of pd) bucket pre
                        (Suc (total_video_index st)) kf (Some img))) img (prompt_type_of pd) i j ts],
                   total_video_index := Suc (total_video_index st),
                   trace := trace st @ snd (generate_video_async R (prompt_text_of pd) bucket pre
                        (Suc (total_video_index st)) kf (Some img))\<rparr>)"
proof (cases "generate_video_async R (prompt_text_of pd) bucket pre
                        (Suc (total_video_index st)) kf (Some img)")
  case (Pair res evs)
  with assms show ?thesis
    by (simp add: process_prompt_def Let_def annotate_fields)
qed

lemma process_prompt_success:
  assumes "success (fst (generate_video_async R (prompt_text_of pd) bucket pre
                        (Suc (total_video_index st)) kf (Some img)))"
  shows "\<exists>loc. s3_location (fst (generate_video_async R (prompt_text_of pd) bucket pre
                        (Suc (total_video_index st)) kf (Some img))) = Some loc \<and>
         process_prompt R bucket pre ts gf i img kf j pd st =
           Inr (st\<lparr>successful_videos := successful_videos st @
                     [if fst (download_video_from_s3 R (Suc (total_video_index st)) loc
                               (path_join gf (local_filename_of ts i j (prompt_type_of pd))))
                      then (annotate (fst (generate_video_async R (prompt_text_of pd) bucket pre
                              (Suc (total_video_index st)) kf (Some img))) img (prompt_type_of pd) i j ts)
                             \<lparr>local_filename :=
                                Some (path_join gf (local_filename_of ts i j (prompt_type_of pd)))\<rparr>
                      else annotate (fst (generate_video_async R (prompt_text_of pd) bucket pre
                              (Suc (total_video_index st)) kf (Some img))) img (prompt_type_of pd) i j ts],
                   total_video_index := Suc (total_video_index st),
                   trace := trace st @ snd (generate_video_async R (prompt_text_of pd) bucket pre
                        (Suc (total_video_index st)) kf (Some img))
                      @ snd (download_video_from_s3 R (Suc (total_video_index st)) loc
                               (path_join gf (local_filename_of ts i j (prompt_type_of pd))))\<rparr>)"
proof (cases "generate_video_async R (prompt_text_of pd) bucket pre
                        (Suc (total_video_index st)) kf (Some img)")
  case (Pair res evs)
  with assms generate_video_async_terminal [of R "prompt_text_of pd" bucket pre
      "Suc (total_video_index st)" kf "Some img"]
  obtain loc where loc: "s3_location res = Some loc" by auto
  show ?thesis
  proof (cases "download_video_from_s3 R (Suc (total_video_index st)) loc
                               (path_join gf (local_filename_of ts i j (prompt_type_of pd)))")
    case dl: (Pair ok devs)
    with Pair assms loc show ?thesis
      by (simp add: process_prompt_def Let_def annotate_fields)
  qed
qed

text \<open>
  C7: the polling loop makes at most \<open>max_attempts\<close> = 60 polls, each after a sleep of
  \<open>poll_delay\<close> = 10 seconds, so at most 600 seconds are slept: it always ends. When the
  submission went through and all 60 polls are still pending, the result is the timeout
  dict: \<open>success\<close> false, error \<open>Generation timed out after maximum attempts\<close>. When
  poll number \<open>k\<close> answers \<open>Failed\<close> after \<open>k\<close> pending polls, the loop stops there
  with the failure dict: \<open>success\<close> false, error \<open>Generation failed: \<close> followed by the
  failure reason, which is never the timeout text. \<open>generate_ads\<close> appends every result
  with \<open>success\<close> false, timed out or failed, to \<open>failed_videos\<close> and leaves
  \<open>successful_videos\<close> as it was.
\<close>

theorem polling_is_bounded:
  "polls (snd (generate_video_async R p b pre vi kf img)) \<le> max_attempts
   \<and> slept (snd (generate_video_async R p b pre vi kf img))
       = poll_delay * polls (snd (generate_video_async R p b pre vi kf img))
   \<and> slept (snd (generate_video_async R p b pre vi kf img)) \<le> max_attempts * poll_delay
   \<and> max_attempts = 60 \<and> poll_delay = 10
   \<and> (\<forall>resp arn.
        start_async_invoke R vi (make_model_input p kf) (s3_output_uri b pre (uuid4 R vi)) = Inr resp
        \<and> invocationArn resp = Some arn
        \<and> (\<forall>j<max_attempts. pending (get_async_invoke R vi j arn))
        \<longrightarrow> fst (generate_video_async R p b pre vi kf img) = timeout_result p img vi
            \<and> polls (snd (generate_video_async R p b pre vi kf img)) = max_attempts
            \<and> \<not> success (fst (generate_video_async R p b pre vi kf img))
            \<and> error (fst (generate_video_async R p b pre vi kf img))
                = Some ''Generation timed out after maximum attempts'')
   \<and> (\<forall>resp arn k sr.
        start_async_invoke R vi (make_model_input p kf) (s3_output_uri b pre (uuid4 R vi)) = Inr resp
        \<and> invocationArn resp = Some arn \<and> k < max_attempts
        \<and> (\<forall>j<k. pending (get_async_invoke R vi j arn))
        \<and> get_async_invoke R vi k arn = Inr sr \<and> status sr = Some ''Failed''
        \<longrightarrow> fst (generate_video_async R p b pre vi kf img) = failed_result p img vi sr
            \<and> polls (snd (generate_video_async R p b pre vi kf img)) = Suc k
            \<and> \<not> success (fst (generate_video_async R p b pre vi kf img))
            \<and> error (fst (generate_video_async R p b pre vi kf img))
                = Some (''Generation failed: '' @
                        (case failureReason sr of None \<Rightarrow> ''No failureReason provided''
                         | Some m \<Rightarrow> m))
            \<and> error (fst (generate_video_async R p b pre vi kf img))
                \<noteq> Some ''Generation timed out after maximum attempts'')
   \<and> \<not> success (timeout_result p img vi)
   \<and> error (timeout_result p img vi) = Some ''Generation timed out after maximum attempts''
   \<and> (\<forall>sr. \<not> success (failed_result p img vi sr)
           \<and> error (failed_result p img vi sr) \<noteq> error (timeout_result p img vi))
   \<and> (\<forall>e. error (exception_result p img vi e) \<noteq> error (timeout_result p img vi))
   \<and> (\<forall>bucket ts gf i name j pd st.
        \<not> success (fst (generate_video_async R (prompt_text_of pd) bucket pre
                          (Suc (total_video_index st)) kf (Some name)))
        \<longrightarrow> (\<exists>st'. process_prompt R bucket pre ts gf i name kf j pd st = Inr st'
                   \<and> successful_videos st' = successful_videos st
                   \<and> failed_videos st' = failed_videos st @
                        [annotate (fst (generate_video_async R (prompt_text_of pd) bucket pre
                                          (Suc (total_video_index st)) kf (Some name)))
                           name (prompt_type_of pd) i j ts]
                   \<and> total_video_index st' = Suc (total_video_index st)
                   \<and> length (failed_videos st') = Suc (length (failed_videos st))))"
proof -
  have b1: "polls (snd (generate_video_async R p b pre vi kf img)) \<le> max_attempts"
    using try_block_events [of R p b pre vi kf img] by (simp add: generate_video_async_snd)
  have b2: "slept (snd (generate_video_async R p b pre vi kf img))
       = poll_delay * polls (snd (generate_video_async R p b pre vi kf img))"
    using try_block_events [of R p b pre vi kf img] by (simp add: generate_video_async_snd)
  from b1 b2 have b3: "slept (snd (generate_video_async R p b pre vi kf img)) \<le> max_attempts * poll_delay"
    by (simp add: mult.commute)
  have b4: "max_attempts = 60 \<and> poll_delay = 10"
    by (simp add: max_attempts_def poll_delay_def)
  have t: "\<forall>resp arn.
        start_async_invoke R vi (make_model_input p kf) (s3_output_uri b pre (uuid4 R vi)) = Inr resp
        \<and> invocationArn resp = Some arn
        \<and> (\<forall>j<max_attempts. pending (get_async_invoke R vi j arn))
        \<longrightarrow> fst (generate_video_async R p b pre vi kf img) = timeout_result p img vi
            \<and> polls (snd (generate_video_async R p b pre vi kf img)) = max_attempts
            \<and> \<not> success (fst (generate_video_async R p b pre vi kf img))
            \<and> error (fst (generate_video_async R p b pre vi kf img))
                = Some ''Generation timed out after maximum attempts''"
  proof (intro allI impI)
    fix resp arn
    assume h: "start_async_invoke R vi (make_model_input p kf) (s3_output_uri b pre (uuid4 R vi)) = Inr resp
        \<and> invocationArn resp = Some arn
        \<and> (\<forall>j<max_attempts. pending (get_async_invoke R vi j arn))"
    then have pl: "fst (poll_loop R p img vi (uuid4 R vi) arn max_attempts 0) = Inr (timeout_result p img vi)
        \<and> polls (snd (poll_loop R p img vi (uuid4 R vi) arn max_attempts 0)) = max_attempts"
      using poll_loop_pending [of max_attempts R vi 0 arn p img "uuid4 R vi"] by simp
    from h pl have 1: "fst (generate_video_async R p b pre vi kf img) = timeout_result p img vi"
      by (simp add: generate_video_async_fst try_block_started(1) [of R vi p kf b pre resp arn])
    from h pl have 2: "polls (snd (generate_video_async R p b pre vi kf img)) = max_attempts"
      by (simp add: generate_video_async_snd try_block_started(2) [of R vi p kf b pre resp arn] polls_def)
    from 1 2 show "fst (generate_video_async R p b pre vi kf img) = timeout_result p img vi
            \<and> polls (snd (generate_video_async R p b pre vi kf img)) = max_attempts
            \<and> \<not> success (fst (generate_video_async R p b pre vi kf img))
            \<and> error (fst (generate_video_async R p b pre vi kf img))
                = Some ''Generation timed out after maximum attempts''"
      by (simp add: timeout_result_fields)
  qed
  have f: "\<forall>resp arn k sr.
        start_async_invoke R vi (make_model_input p kf) (s3_output_uri b pre (uuid4 R vi)) = Inr resp
        \<and> invocationArn resp = Some arn \<and> k < max_attempts
        \<and> (\<forall>j<k. pending (get_async_invoke R vi j arn))
        \<and> get_async_invoke R vi k arn = Inr sr \<and> status sr = Some ''Failed''
        \<longrightarrow> fst (generate_video_async R p b pre vi kf img) = failed_result p img vi sr
            \<and> polls (snd (generate_video_async R p b pre vi kf img)) = Suc k
            \<and> \<not> success (fst (generate_video_async R p b pre vi kf img))
            \<and> error (fst (generate_video_async R p b pre vi kf img))
                = Some (''Generation failed: '' @
                        (case failureReason sr of None \<Rightarrow> ''No failureReason provided''
                         | Some m \<Rightarrow> m))
            \<and> error (fst (generate_video_async R p b pre vi kf img))
                \<noteq> Some ''Generation timed out after maximum attempts''"
  proof (intro allI impI)
    fix resp arn k sr
    assume h: "start_async_invoke R vi (make_model_input p kf) (s3_output_uri b pre (uuid4 R vi)) = Inr resp
        \<and> invocationArn resp = Some arn \<and> k < max_attempts
        \<and> (\<forall>j<k. pending (get_async_invoke R vi j arn))
        \<and> get_async_invoke R vi k arn = Inr sr \<and> status sr = Some ''Failed''"
    then have pl: "fst (poll_loop R p img vi (uuid4 R vi) arn max_attempts 0) = Inr (failed_result p img vi sr)
        \<and> polls (snd (poll_loop R p img vi (uuid4 R vi) arn max_attempts 0)) = Suc k"
      using poll_loop_failed [of k max_attempts R vi 0 arn sr p img "uuid4 R vi"] by simp
    from h pl have 1: "fst (generate_video_async R p b pre vi kf img) = failed_result p img vi sr"
      by (simp add: generate_video_async_fst try_block_started(1) [of R vi p kf b pre resp arn])
    from h pl have 2: "polls (snd (generate_video_async R p b pre vi kf img)) = Suc k"
      by (simp add: generate_video_async_snd try_block_started(2) [of R vi p kf b pre resp arn] polls_def)
    from 1 2 show "fst (generate_video_async R p b pre vi kf img) = failed_result p img vi sr
            \<and> polls (snd (generate_video_async R p b pre vi kf img)) = Suc k
            \<and> \<not> success (fst (generate_video_async R p b pre vi kf img))
            \<and> error (fst (generate_video_async R p b pre vi kf img))
                = Some (''Generation failed: '' @
                        (case failureReason sr of None \<Rightarrow> ''No failureReason provided''
                         | Some m \<Rightarrow> m))
            \<and> error (fst (generate_video_async R p b pre vi kf img))
                \<noteq> Some ''Generation timed out after maximum attempts''"
      by (simp add: failed_result_fields)
  qed
  have d1: "\<not> success (timeout_result p img vi)"
    and d2: "error (timeout_result p img vi) = Some ''Generation timed out after maximum attempts''"
    by (simp_all add: timeout_result_fields)
  have d3: "\<forall>sr. \<not> success (failed_result p img vi sr)
           \<and> error (failed_result p img vi sr) \<noteq> error (timeout_result p img vi)"
    by (simp add: failed_result_fields timeout_result_fields)
  have d4: "\<forall>e. error (exception_result p img vi e) \<noteq> error (timeout_result p img vi)"
    by (simp add: exception_result_fields timeout_result_fields)
  have g: "\<forall>bucket ts gf i name j pd st.
        \<not> success (fst (generate_video_async R (prompt_text_of pd) bucket pre
                          (Suc (total_video_index st)) kf (Some name)))
        \<longrightarrow> (\<exists>st'. process_prompt R bucket pre ts gf i name kf j pd st = Inr st'
                   \<and> successful_videos st' = successful_videos st
                   \<and> failed_videos st' = failed_videos st @
                        [annotate (fst (generate_video_async R (prompt_text_of pd) bucket pre
                                          (Suc (total_video_index st)) kf (Some name)))
                           name (prompt_type_of pd) i j ts]
                   \<and> total_video_index st' = Suc (total_video_index st)
                   \<and> length (failed_videos st') = Suc (length (failed_videos st)))"
  proof (intro allI impI)
    fix bucket ts gf i name j pd and st :: gen_state
    assume h: "\<not> success (fst (generate_video_async R (prompt_text_of pd) bucket pre
                          (Suc (total_video_index st)) kf (Some name)))"
    show "\<exists>st'. process_prompt R bucket pre ts gf i name kf j pd st = Inr st'
                   \<and> successful_videos st' = successful_videos st
                   \<and> failed_videos st' = failed_videos st @
                        [annotate (fst (generate_video_async R (prompt_text_of pd) bucket pre
                                          (Suc (total_video_index st)) kf (Some name)))
                           name (prompt_type_of pd) i j ts]
                   \<and> total_video_index st' = Suc (total_video_index st)
                   \<and> length (failed_videos st') = Suc (length (failed_videos st))"
      by (simp add: process_prompt_failure [OF h])
  qed
  from b1 b2 b3 b4 t f d1 d2 d3 d4 g show ?thesis by (intro conjI) simp_all
qed


theorem polling_is_bounded_witness:
  "fst (generate_video_async (example_remote (\<lambda>k. started) (\<lambda>k a. in_progress) (\<lambda>k. Inr None))
          ''a prompt'' ''bkt'' ''luma-videos/T'' 1 None (Some ''shoe.jpg''))
     = \<lparr>success = False, s3_location = None, prompt = ''a prompt'',
        source_image = Some ''shoe.jpg'', generation_time = None, job_id = None,
        video_index = 1, error = Some ''Generation timed out after maximum attempts'',
        full_error_response = None, prompt_type = None, image_index = None,
        prompt_index = None, timestamp = None, local_filename = None\<rparr>
   \<and> polls (snd (generate_video_async (example_remote (\<lambda>k. started) (\<lambda>k a. in_progress) (\<lambda>k. Inr None))
          ''a prompt'' ''bkt'' ''luma-videos/T'' 1 None (Some ''shoe.jpg''))) = 60
   \<and> slept (snd (generate_video_async (example_remote (\<lambda>k. started) (\<lambda>k a. in_progress) (\<lambda>k. Inr None))
          ''a prompt'' ''bkt'' ''luma-videos/T'' 1 None (Some ''shoe.jpg''))) = 600
   \<and> error (fst (generate_video_async
                   (example_remote (\<lambda>k. started) (\<lambda>k a. if a < 2 then in_progress else failed) (\<lambda>k. Inr None))
                   ''a prompt'' ''bkt'' ''luma-videos/T'' 1 None (Some ''shoe.jpg'')))
       = Some ''Generation failed: quota exceeded''
   \<and> \<not> success (fst (generate_video_async
                   (example_remote (\<lambda>k. started) (\<lambda>k a. if a < 2 then in_progress else failed) (\<lambda>k. Inr None))
                   ''a prompt'' ''bkt'' ''luma-videos/T'' 1 None (Some ''shoe.jpg'')))
   \<and> polls (snd (generate_video_async
                   (example_remote (\<lambda>k. started) (\<lambda>k a. if a < 2 then in_progress else failed) (\<lambda>k. Inr None))
                   ''a prompt'' ''bkt'' ''luma-videos/T'' 1 None (Some ''shoe.jpg''))) = 3
   \<and> (\<exists>st'. process_prompt (example_remote (\<lambda>k. started) (\<lambda>k a. in_progress) (\<lambda>k. Inr None))
               ''bkt'' ''luma-videos/T'' ''T'' ''ads/generated_ads'' 1 ''shoe.jpg'' None 1
               (PromptDict (Some ''a prompt'') (Some ''Hero Showcase'')) initial_state = Inr st'
             \<and> successful_videos st' = [] \<and> length (failed_videos st') = 1
             \<and> map error (failed_videos st') = [Some ''Generation timed out after maximum attempts''])
   \<and> report_summary (fst (generate_ads fail_and_timeout (example_host ''20240104_090000'') ''ads'' 3
                            (Some ''bkt'') True None Map.empty))
       = Some (''20240104_090000'', 6, 4, 2,
               [''video_20240104_090000_01_01_hero_showcase.mp4'',
                ''video_20240104_090000_01_02_lifestyle_focus.mp4'',
                ''video_20240104_090000_01_03_technical_detail.mp4'',
                ''video_20240104_090000_02_03_technical_detail.mp4''])
   \<and> failed_errors (fst (generate_ads fail_and_timeout (example_host ''20240104_090000'') ''ads'' 3
                            (Some ''bkt'') True None Map.empty))
       = [Some ''Generation failed: quota exceeded'',
          Some ''Generation timed out after maximum attempts'']"
proof -
  note T = polling_is_bounded
          [of "example_remote (\<lambda>k. started) (\<lambda>k a. in_progress) (\<lambda>k. Inr None)"
              "''a prompt''" "''bkt''" "''luma-videos/T''" 1 None "Some ''shoe.jpg''"]
  note F = polling_is_bounded
          [of "example_remote (\<lambda>k. started) (\<lambda>k a. if a < 2 then in_progress else failed) (\<lambda>k. Inr None)"
              "''a prompt''" "''bkt''" "''luma-videos/T''" 1 None "Some ''shoe.jpg''",
           THEN conjunct2, THEN conjunct2, THEN conjunct2, THEN conjunct2, THEN conjunct2,
           THEN conjunct2, THEN conjunct1, rule_format,
           of "\<lparr>invocationArn = Some ''arn:1''\<rparr>" "''arn:1''" 2
              "\<lparr>status = Some ''Failed'', s3Uri = Inl (key_error ''outputDataConfig''),
                failureReason = Some ''quota exceeded''\<rparr>"]
  have a: "fst (generate_video_async (example_remote (\<lambda>k. started) (\<lambda>k a. in_progress) (\<lambda>k. Inr None))
          ''a prompt'' ''bkt'' ''luma-videos/T'' 1 None (Some ''shoe.jpg''))
     = timeout_result ''a prompt'' (Some ''shoe.jpg'') 1
   \<and> polls (snd (generate_video_async (example_remote (\<lambda>k. started) (\<lambda>k a. in_progress) (\<lambda>k. Inr None))
          ''a prompt'' ''bkt'' ''luma-videos/T'' 1 None (Some ''shoe.jpg''))) = 60"
    using T [THEN conjunct2, THEN conjunct2, THEN conjunct2, THEN conjunct2, THEN conjunct2,
             THEN conjunct1, rule_format, of "\<lparr>invocationArn = Some ''arn:1''\<rparr>" "''arn:1''"]
    by (simp add: example_remote_def started_def in_progress_def pending_def max_attempts_def)
  have b: "slept (snd (generate_video_async (example_remote (\<lambda>k. started) (\<lambda>k a. in_progress) (\<lambda>k. Inr None))
          ''a prompt'' ''bkt'' ''luma-videos/T'' 1 None (Some ''shoe.jpg''))) = 600"
    using T [THEN conjunct2, THEN conjunct1] a by (simp add: poll_delay_def)
  have f: "error (fst (generate_video_async
                   (example_remote (\<lambda>k. started) (\<lambda>k a. if a < 2 then in_progress else failed) (\<lambda>k. Inr None))
                   ''a prompt'' ''bkt'' ''luma-videos/T'' 1 None (Some ''shoe.jpg'')))
       = Some ''Generation failed: quota exceeded''
   \<and> \<not> success (fst (generate_video_async
                   (example_remote (\<lambda>k. started) (\<lambda>k a. if a < 2 then in_progress else failed) (\<lambda>k. Inr None))
                   ''a prompt'' ''bkt'' ''luma-videos/T'' 1 None (Some ''shoe.jpg'')))
   \<and> polls (snd (generate_video_async
                   (example_remote (\<lambda>k. started) (\<lambda>k a. if a < 2 then in_progress else failed) (\<lambda>k. Inr None))
                   ''a prompt'' ''bkt'' ''luma-videos/T'' 1 None (Some ''shoe.jpg''))) = 3"
    using F by (simp add: example_remote_def started_def in_progress_def failed_def pending_def
        max_attempts_def failed_result_fields)
  from T [THEN conjunct2, THEN conjunct2, THEN conjunct2, THEN conjunct2, THEN conjunct2,
          THEN conjunct2, THEN conjunct2, THEN conjunct2, THEN conjunct2, THEN conjunct2,
          THEN conjunct2, rule_format,
          of "PromptDict (Some ''a prompt'') (Some ''Hero Showcase'')" "''bkt''" initial_state
             "''shoe.jpg''" "''T''" "''ads/generated_ads''" 1 1] a
  obtain st' where
    p: "process_prompt (example_remote (\<lambda>k. started) (\<lambda>k a. in_progress) (\<lambda>k. Inr None))
               ''bkt'' ''luma-videos/T'' ''T'' ''ads/generated_ads'' 1 ''shoe.jpg'' None 1
               (PromptDict (Some ''a prompt'') (Some ''Hero Showcase'')) initial_state = Inr st'"
       "successful_videos st' = []"
       "failed_videos st' =
          [annotate (timeout_result ''a prompt'' (Some ''shoe.jpg'') 1) ''shoe.jpg''
             (prompt_type_of (PromptDict (Some ''a prompt'') (Some ''Hero Showcase''))) 1 1 ''T'']"
    by (auto simp: initial_state_def prompt_text_of_def timeout_result_fields)
  have c: "\<exists>st'. process_prompt (example_remote (\<lambda>k. started) (\<lambda>k a. in_progress) (\<lambda>k. Inr None))
               ''bkt'' ''luma-videos/T'' ''T'' ''ads/generated_ads'' 1 ''shoe.jpg'' None 1
               (PromptDict (Some ''a prompt'') (Some ''Hero Showcase'')) initial_state = Inr st'
             \<and> successful_videos st' = [] \<and> length (failed_videos st') = 1
             \<and> map error (failed_videos st') = [Some ''Generation timed out after maximum attempts'']"
    using p by (intro exI [of _ st']) (simp add: annotate_fields timeout_result_fields)
  have d: "report_summary (fst (generate_ads fail_and_timeout (example_host ''20240104_090000'') ''ads'' 3
                            (Some ''bkt'') True None Map.empty))
       = Some (''20240104_090000'', 6, 4, 2,
               [''video_20240104_090000_01_01_hero_showcase.mp4'',
                ''video_20240104_090000_01_02_lifestyle_focus.mp4'',
                ''video_20240104_090000_01_03_technical_detail.mp4'',
                ''video_20240104_090000_02_03_technical_detail.mp4''])"
    by code_simp
  have e: "failed_errors (fst (generate_ads fail_and_timeout (example_host ''20240104_090000'') ''ads'' 3
                            (Some ''bkt'') True None Map.empty))
       = [Some ''Generation failed: quota exceeded'',
          Some ''Generation timed out after maximum attempts'']"
    by code_simp
  from a b f c d e show ?thesis
    by (simp add: timeout_result_def base_result_def)
qed



section \<open>Properties of the session aggregator\<close>

lemma retrievals_append: "retrievals k (xs @ ys) = retrievals k xs + retrievals k ys"
  by (simp add: retrievals_def)

lemma retrievals_none: "(\<forall>e \<in> set evs. \<not> is_retrieve k e) \<Longrightarrow> retrievals k evs = 0"
  by (simp add: retrievals_def)

lemma generate_video_async_events:
  "retrievals k (snd (generate_video_async R p b pre vi kf img)) = 0"
  "\<forall>e \<in> set (snd (generate_video_async R p b pre vi kf img)). \<not> is_write e"
  using try_block_events [of R p b pre vi kf img k]
  by (simp_all add: generate_video_async_snd retrievals_none)

lemma download_video_from_s3_events:
  "retrievals k (snd (download_video_from_s3 R j loc path)) = (if k = j then 1 else 0)"
  "\<forall>e \<in> set (snd (download_video_from_s3 R j loc path)). \<not> is_write e"
  by (auto simp: download_video_from_s3_def retrievals_def Let_def
      split: sum.splits option.splits)

lemma process_prompt_total:
  "\<exists>st'. process_prompt R bucket pre ts gf i img kf j pd st = Inr st'"
proof (cases "success (fst (generate_video_async R (prompt_text_of pd) bucket pre
                        (Suc (total_video_index st)) kf (Some img)))")
  case True
  from process_prompt_success [OF True, of ts gf i j] show ?thesis by blast
next
  case False
  from process_prompt_failure [OF False, of ts gf i j] show ?thesis by blast
qed

lemma process_prompt_inv:
  assumes inv: "session_inv st"
    and step: "process_prompt R bucket pre ts gf i img kf j pd st = Inr st'"
  shows "session_inv st'"
proof (cases "success (fst (generate_video_async R (prompt_text_of pd) bucket pre
                        (Suc (total_video_index st)) kf (Some img)))")
  case True
  from process_prompt_success [OF True, of ts gf i j] step obtain loc where
    st': "st' = st\<lparr>successful_videos := successful_videos st @
                     [if fst (download_video_from_s3 R (Suc (total_video_index st)) loc
                               (path_join gf (local_filename_of ts i j (prompt_type_of pd))))
                      then (annotate (fst (generate_video_async R (prompt_text_of pd) bucket pre
                              (Suc (total_video_index st)) kf (Some img))) img (prompt_type_of pd) i j ts)
                             \<lparr>local_filename :=
                                Some (path_join gf (local_filename_of ts i j (prompt_type_of pd)))\<rparr>
                      else annotate (fst (generate_video_async R (prompt_text_of pd) bucket pre
                              (Suc (total_video_index st)) kf (Some img))) img (prompt_type_of pd) i j ts],
                   total_video_index := Suc (total_video_index st),
                   trace := trace st @ snd (generate_video_async R (prompt_text_of pd) bucket pre
                        (Suc (total_video_index st)) kf (Some img))
                      @ snd (download_video_from_s3 R (Suc (total_video_index st)) loc
                               (path_join gf (local_filename_of ts i j (prompt_type_of pd))))\<rparr>"
    by auto
  from inv True show ?thesis
    unfolding st' session_inv_def
    by (auto simp: retrievals_append generate_video_async_events download_video_from_s3_events
        annotate_fields generate_video_async_index)
next
  case False
  from process_prompt_failure [OF False, of ts gf i j] step have
    st': "st' = st\<lparr>failed_videos := failed_videos st @
                     [annotate (fst (generate_video_async R (prompt_text_of pd) bucket pre
                        (Suc (total_video_index st)) kf (Some img))) img (prompt_type_of pd) i j ts],
                   total_video_index := Suc (total_video_index st),
                   trace := trace st @ snd (generate_video_async R (prompt_text_of pd) bucket pre
                        (Suc (total_video_index st)) kf (Some img))\<rparr>"
    by simp
  from inv False show ?thesis
    unfolding st' session_inv_def
    by (auto simp: retrievals_append generate_video_async_events
        annotate_fields generate_video_async_index)
qed

lemma prompt_loop_inv:
  "session_inv st \<Longrightarrow>
   \<exists>st'. prompt_loop R bucket pre ts gf i img kf j pds st = Inr st' \<and> session_inv st'"
proof (induction pds arbitrary: j st)
  case Nil
  then show ?case by simp
next
  case (Cons pd pds)
  from process_prompt_total [of R bucket pre ts gf i img kf j pd st] obtain st1 where
    s1: "process_prompt R bucket pre ts gf i img kf j pd st = Inr st1" by blast
  with Cons.prems have "session_inv st1" by (rule process_prompt_inv)
  from Cons.IH [OF this, of "Suc j"] s1 show ?case by simp
qed

lemma process_image_inv:
  "session_inv st \<Longrightarrow>
   \<exists>st'. process_image R H folder n bucket use_imgs pre ts i ia st = Inr st' \<and> session_inv st'"
  by (simp add: process_image_def Let_def prompt_loop_inv)

lemma image_loop_inv:
  "session_inv st \<Longrightarrow>
   \<exists>st'. image_loop R H folder n bucket use_imgs pre ts i ias st = Inr st' \<and> session_inv st'"
proof (induction ias arbitrary: i st)
  case Nil
  then show ?case by simp
next
  case (Cons ia ias)
  from process_image_inv [OF Cons.prems, of R H folder n bucket use_imgs pre ts i ia] obtain st1 where
    s1: "process_image R H folder n bucket use_imgs pre ts i ia st = Inr st1" and "session_inv st1"
    by blast
  from Cons.IH [OF this(2), of "Suc i"] s1 show ?case by simp
qed

lemma initial_state_inv: "session_inv initial_state"
  by (simp add: session_inv_def initial_state_def retrievals_def)


lemma generate_ads_report:
  assumes "generate_ads R H folder n bkt use_imgs ts0 fs = (Inr (Some rep), fs', evs)"
  shows "\<exists>st. session_inv st
           \<and> (\<exists>pias. load_prompts (prompts_file H) = Inr pias
                  \<and> image_loop R H folder n (case bkt of None \<Rightarrow> [] | Some b \<Rightarrow> b) use_imgs
                        (''luma-videos/'' @ session_id H ts0) (session_id H ts0) 1 pias
                        initial_state = Inr st)
           \<and> report_successful_videos rep = successful_videos st
           \<and> report_failed_videos rep = failed_videos st
           \<and> total_attempted rep = total_video_index st
           \<and> successful_count rep = length (successful_videos st)
           \<and> failed_count rep = length (failed_videos st)
           \<and> report_timestamp rep = session_id H ts0
           \<and> fs' = (if collect_session_videos (successful_videos st) = []
                    then fs(report_file_of folder (session_id H ts0) \<mapsto> ReportFile rep)
                    else fs(report_file_of folder (session_id H ts0) \<mapsto> ReportFile rep,
                            session_file_of folder (session_id H ts0) \<mapsto>
                              SessionFile \<lparr>session_timestamp = session_id H ts0,
                                         session_timestamp_iso = now_isoformat H 1,
                                         session_videos = collect_session_videos (successful_videos st),
                                         generation_report_name =
                                           path_name (report_file_of folder (session_id H ts0))\<rparr>,
                            latest_session_file_of folder \<mapsto>
                              SessionFile \<lparr>session_timestamp = session_id H ts0,
                                         session_timestamp_iso = now_isoformat H 1,
                                         session_videos = collect_session_videos (successful_videos st),
                                         generation_report_name =
                                           path_name (report_file_of folder (session_id H ts0))\<rparr>))
           \<and> evs = trace st @
                   (if collect_session_videos (successful_videos st) = []
                    then [WriteFile (report_file_of folder (session_id H ts0))]
                    else [WriteFile (report_file_of folder (session_id H ts0)),
                          WriteFile (session_file_of folder (session_id H ts0)),
                          WriteFile (latest_session_file_of folder)])"
proof -
  from assms have t: "truthy bkt"
    by (auto simp: generate_ads_def split: if_splits)
  from assms t obtain pias where l: "load_prompts (prompts_file H) = Inr pias"
    by (auto simp: generate_ads_def Let_def split: sum.splits)
  from image_loop_inv [OF initial_state_inv, of R H folder n "case bkt of None \<Rightarrow> [] | Some b \<Rightarrow> b"
      use_imgs "''luma-videos/'' @ session_id H ts0" "session_id H ts0" 1 pias]
  obtain st where
    st: "image_loop R H folder n (case bkt of None \<Rightarrow> [] | Some b \<Rightarrow> b) use_imgs
           (''luma-videos/'' @ session_id H ts0) (session_id H ts0) 1 pias initial_state = Inr st"
    and inv: "session_inv st"
    by blast
  from assms t l st have
    "rep = make_report H (session_id H ts0) (case bkt of None \<Rightarrow> [] | Some b \<Rightarrow> b) n use_imgs
             (length pias) st"
    by (auto simp: generate_ads_def Let_def split: if_splits)
  with assms t l st inv show ?thesis
    by (intro exI [of _ st])
      (auto simp: generate_ads_def Let_def make_report_def write_json_def write_json_states_def
         split: if_splits)
qed


lemma session_paths_distinct:
  "report_file_of folder ts \<noteq> session_file_of folder ts'"
  "report_file_of folder ts \<noteq> latest_session_file_of folder"
  "session_file_of folder ts \<noteq> latest_session_file_of folder"
  by (simp_all add: report_file_of_def session_file_of_def latest_session_file_of_def
      path_join_distinct)

lemma report_summary_Some:
  "report_summary res = Some (ts, a, b, c, names) \<Longrightarrow>
   \<exists>rep. res = Inr (Some rep) \<and> report_timestamp rep = ts \<and> total_attempted rep = a
         \<and> successful_count rep = b \<and> failed_count rep = c
         \<and> collect_session_videos (report_successful_videos rep) = names"
  by (auto simp: report_summary_def split: sum.splits option.splits)

lemma triple_of_fst:
  "fst G = a \<Longrightarrow> G = (a, fst (snd G), snd (snd G))"
  by (metis prod.collapse)

text \<open>
  C9: in the report of every session, \<open>total_attempted\<close> is \<open>successful_count\<close> plus
  \<open>failed_count\<close>, and the two counts are the lengths of the two lists of results: every
  pair that advances the counter adds its result to exactly one of the lists.
\<close>

theorem report_counts_add_up:
  assumes "generate_ads R H folder n bkt use_imgs ts0 fs = (Inr (Some rep), fs', evs)"
  shows "total_attempted rep = successful_count rep + failed_count rep
         \<and> successful_count rep = length (report_successful_videos rep)
         \<and> failed_count rep = length (report_failed_videos rep)"
proof -
  from generate_ads_report [OF assms] obtain st where
    "session_inv st" "total_attempted rep = total_video_index st"
    "successful_count rep = length (successful_videos st)"
    "failed_count rep = length (failed_videos st)"
    "report_successful_videos rep = successful_videos st"
    "report_failed_videos rep = failed_videos st"
    by blast
  then show ?thesis by (simp add: session_inv_def)
qed

theorem report_counts_add_up_witness:
  "\<exists>rep. fst (generate_ads mixed (example_host ''20240103_090000'') ''ads'' 3
                 (Some ''bkt'') True None Map.empty) = Inr (Some rep)
         \<and> total_attempted rep = 6 \<and> successful_count rep = 4 \<and> failed_count rep = 2
         \<and> total_attempted rep = successful_count rep + failed_count rep
         \<and> length (report_successful_videos rep) = 4
         \<and> length (report_failed_videos rep) = 2"
proof -
  have "report_summary (fst (generate_ads mixed (example_host ''20240103_090000'') ''ads'' 3
                          (Some ''bkt'') True None Map.empty))
     = Some (''20240103_090000'', 6, 4, 2,
             [''video_20240103_090000_01_01_hero_showcase.mp4'',
              ''video_20240103_090000_01_03_technical_detail.mp4'',
              ''video_20240103_090000_02_03_technical_detail.mp4''])"
    by code_simp
  then obtain rep where
    r: "fst (generate_ads mixed (example_host ''20240103_090000'') ''ads'' 3
              (Some ''bkt'') True None Map.empty) = Inr (Some rep)"
    and c: "total_attempted rep = 6" "successful_count rep = 4" "failed_count rep = 2"
    by (blast dest: report_summary_Some)
  from r have "generate_ads mixed (example_host ''20240103_090000'') ''ads'' 3
                 (Some ''bkt'') True None Map.empty
        = (Inr (Some rep),
           fst (snd (generate_ads mixed (example_host ''20240103_090000'') ''ads'' 3
                       (Some ''bkt'') True None Map.empty)),
           snd (snd (generate_ads mixed (example_host ''20240103_090000'') ''ads'' 3
                       (Some ''bkt'') True None Map.empty)))"
    by (metis prod.collapse)
  from report_counts_add_up [OF this] r c show ?thesis by simp
qed

lemma poll_loop_no_local_filename:
  "poll_loop R p img vi jid arn n a = (Inr r, evs) \<Longrightarrow> local_filename r = None"
proof (induction n arbitrary: a evs)
  case 0
  then show ?case by (auto simp: timeout_result_def base_result_def)
next
  case (Suc n)
  show ?case
  proof (cases "pending (get_async_invoke R vi a arn)")
    case True
    then obtain evs' where "poll_loop R p img vi jid arn n (Suc a) = (Inr r, evs')"
      using Suc.prems
      by (auto simp: pending_def split: sum.splits option.splits prod.splits if_splits)
    then show ?thesis by (rule Suc.IH)
  next
    case False
    with Suc.prems show ?thesis
      by (auto simp: pending_def failed_result_def completed_result_def base_result_def
          split: sum.splits option.splits if_splits)
  qed
qed

lemma generate_video_async_no_local_filename:
  "local_filename (fst (generate_video_async R p b pre vi kf img)) = None"
proof (cases "try_block R p b pre vi kf img")
  case (Pair res evs)
  show ?thesis
  proof (cases res)
    case (Inl e)
    with Pair show ?thesis
      by (simp add: generate_video_async_def exception_result_def base_result_def)
  next
    case (Inr r)
    with Pair obtain arn evs' where
      "poll_loop R p img vi (uuid4 R vi) arn max_attempts 0 = (Inr r, evs')"
      by (auto simp: try_block_def Let_def split: sum.splits option.splits prod.splits)
    then have "local_filename r = None" by (rule poll_loop_no_local_filename)
    with Pair Inr show ?thesis by (simp add: generate_video_async_def)
  qed
qed

lemma collect_session_videos_append:
  "collect_session_videos (xs @ ys) = collect_session_videos xs @ collect_session_videos ys"
  by (simp add: collect_session_videos_def map_filter_def)

lemma collect_session_videos_single:
  "collect_session_videos [r] = (case local_filename r of None \<Rightarrow> [] | Some p \<Rightarrow> [path_name p])"
  by (simp add: collect_session_videos_def map_filter_def split: option.splits)

lemma collect_session_videos_length:
  "length (collect_session_videos vs) = length (filter (\<lambda>r. local_filename r \<noteq> None) vs)"
  by (induction vs) (auto simp: collect_session_videos_def map_filter_def)

lemma retrievals_writes:
  "retrievals k (evs @ [WriteFile a]) = retrievals k evs"
  "retrievals k (evs @ [WriteFile a, WriteFile b, WriteFile c]) = retrievals k evs"
  by (simp_all add: retrievals_def)

text \<open>
  C4: in every session that returns a report, the job of each result in
  \<open>successful_videos\<close> (\<open>success\<close> true: the remote status was \<open>Completed\<close>) was
  retrieved exactly once, and the job of each result in \<open>failed_videos\<close> (a remote
  failure, a timeout or an exception) never. Every completed job counts in
  \<open>successful_count\<close>; the manifest written lists the names of the completed jobs that
  have a \<open>local_filename\<close>. A completed job whose download returns False is appended
  to \<open>successful_videos\<close> without a \<open>local_filename\<close> and adds no name to the manifest.
\<close>

theorem retrieval_once_per_completed_job:
  assumes "generate_ads R H folder n bkt use_imgs ts0 fs = (Inr (Some rep), fs', evs)"
  shows "(\<forall>r \<in> set (report_successful_videos rep).
            success r \<and> retrievals (video_index r) evs = 1)
         \<and> (\<forall>r \<in> set (report_failed_videos rep).
              \<not> success r \<and> retrievals (video_index r) evs = 0)
         \<and> successful_count rep = length (report_successful_videos rep)
         \<and> length (collect_session_videos (report_successful_videos rep))
             = length (filter (\<lambda>r. local_filename r \<noteq> None) (report_successful_videos rep))
         \<and> (if collect_session_videos (report_successful_videos rep) = []
              then fs' (session_file_of folder (report_timestamp rep))
                     = fs (session_file_of folder (report_timestamp rep))
              else (\<exists>sd. fs' (session_file_of folder (report_timestamp rep)) = Some (SessionFile sd)
                    \<and> session_videos sd = collect_session_videos (report_successful_videos rep)))
         \<and> (\<forall>bucket pre ts gf i img kf j pd st loc.
               success (fst (generate_video_async R (prompt_text_of pd) bucket
                               pre (Suc (total_video_index st)) kf (Some img)))
               \<and> s3_location (fst (generate_video_async R (prompt_text_of pd)
                               bucket
                               pre (Suc (total_video_index st)) kf (Some img))) = Some loc
               \<and> \<not> fst (download_video_from_s3 R (Suc (total_video_index st)) loc
                           (path_join gf (local_filename_of ts i j (prompt_type_of pd))))
               \<longrightarrow> (\<exists>st' r. process_prompt R bucket pre ts gf i img kf j pd st
                              = Inr st'
                            \<and> successful_videos st' = successful_videos st @ [r]
                            \<and> failed_videos st' = failed_videos st
                            \<and> success r \<and> local_filename r = None
                            \<and> collect_session_videos (successful_videos st')
                                = collect_session_videos (successful_videos st)))"
proof -
  from generate_ads_report [OF assms] obtain st where
    inv: "session_inv st"
    and rs: "report_successful_videos rep = successful_videos st"
    and rf: "report_failed_videos rep = failed_videos st"
    and sc: "successful_count rep = length (successful_videos st)"
    and ts: "report_timestamp rep = session_id H ts0"
    and fs': "fs' = (if collect_session_videos (successful_videos st) = []
                    then fs(report_file_of folder (session_id H ts0) \<mapsto> ReportFile rep)
                    else fs(report_file_of folder (session_id H ts0) \<mapsto> ReportFile rep,
                            session_file_of folder (session_id H ts0) \<mapsto>
                              SessionFile \<lparr>session_timestamp = session_id H ts0,
                                         session_timestamp_iso = now_isoformat H 1,
                                         session_videos = collect_session_videos (successful_videos st),
                                         generation_report_name =
                                           path_name (report_file_of folder (session_id H ts0))\<rparr>,
                            latest_session_file_of folder \<mapsto>
                              SessionFile \<lparr>session_timestamp = session_id H ts0,
                                         session_timestamp_iso = now_isoformat H 1,
                                         session_videos = collect_session_videos (successful_videos st),
                                         generation_report_name =
                                           path_name (report_file_of folder (session_id H ts0))\<rparr>))"
    and evs: "evs = trace st @
                   (if collect_session_videos (successful_videos st) = []
                    then [WriteFile (report_file_of folder (session_id H ts0))]
                    else [WriteFile (report_file_of folder (session_id H ts0)),
                          WriteFile (session_file_of folder (session_id H ts0)),
                          WriteFile (latest_session_file_of folder)])"
    by blast
  have ret: "\<And>k. retrievals k evs = retrievals k (trace st)"
    unfolding evs by (simp add: retrievals_writes)
  have a: "\<forall>r \<in> set (report_successful_videos rep). success r \<and> retrievals (video_index r) evs = 1"
    using inv by (simp add: session_inv_def rs ret)
  have b: "\<forall>r \<in> set (report_failed_videos rep). \<not> success r \<and> retrievals (video_index r) evs = 0"
    using inv by (simp add: session_inv_def rf ret)
  have c: "successful_count rep = length (report_successful_videos rep)"
    by (simp add: sc rs)
  have d: "length (collect_session_videos (report_successful_videos rep))
             = length (filter (\<lambda>r. local_filename r \<noteq> None) (report_successful_videos rep))"
    by (rule collect_session_videos_length)
  have e: "if collect_session_videos (report_successful_videos rep) = []
              then fs' (session_file_of folder (report_timestamp rep))
                     = fs (session_file_of folder (report_timestamp rep))
              else (\<exists>sd. fs' (session_file_of folder (report_timestamp rep)) = Some (SessionFile sd)
                    \<and> session_videos sd = collect_session_videos (report_successful_videos rep))"
    by (simp add: fs' rs ts session_paths_distinct session_paths_distinct [symmetric])
  have f: "\<forall>bucket pre ts gf i img kf j pd st loc.
               success (fst (generate_video_async R (prompt_text_of pd) bucket
                               pre (Suc (total_video_index st)) kf (Some img)))
               \<and> s3_location (fst (generate_video_async R (prompt_text_of pd)
                               bucket
                               pre (Suc (total_video_index st)) kf (Some img))) = Some loc
               \<and> \<not> fst (download_video_from_s3 R (Suc (total_video_index st)) loc
                           (path_join gf (local_filename_of ts i j (prompt_type_of pd))))
               \<longrightarrow> (\<exists>st' r. process_prompt R bucket pre ts gf i img kf j pd st
                              = Inr st'
                            \<and> successful_videos st' = successful_videos st @ [r]
                            \<and> failed_videos st' = failed_videos st
                            \<and> success r \<and> local_filename r = None
                            \<and> collect_session_videos (successful_videos st')
                                = collect_session_videos (successful_videos st))"
  proof (intro allI impI)
    fix bucket pre ts gf i img kf j pd loc and st :: gen_state
    assume h: "success (fst (generate_video_async R (prompt_text_of pd) bucket
                               pre (Suc (total_video_index st)) kf (Some img)))
               \<and> s3_location (fst (generate_video_async R (prompt_text_of pd)
                               bucket
                               pre (Suc (total_video_index st)) kf (Some img))) = Some loc
               \<and> \<not> fst (download_video_from_s3 R (Suc (total_video_index st)) loc
                           (path_join gf (local_filename_of ts i j (prompt_type_of pd))))"
    from process_prompt_success [of R pd bucket pre st kf img ts gf i j] h
    show "\<exists>st' r. process_prompt R bucket pre ts gf i img kf j pd st
                              = Inr st'
                            \<and> successful_videos st' = successful_videos st @ [r]
                            \<and> failed_videos st' = failed_videos st
                            \<and> success r \<and> local_filename r = None
                            \<and> collect_session_videos (successful_videos st')
                                = collect_session_videos (successful_videos st)"
      by (auto simp: annotate_fields generate_video_async_no_local_filename
          collect_session_videos_append collect_session_videos_single)
  qed
  from a b c d e f show ?thesis by blast
qed


theorem retrieval_once_per_completed_job_witness:
  "\<exists>rep fs' evs.
      generate_ads mixed (example_host ''20240103_090000'') ''ads'' 3 (Some ''bkt'') True None
        Map.empty = (Inr (Some rep), fs', evs)
      \<and> successful_count rep = 4
      \<and> length (report_successful_videos rep) = 4
      \<and> length (filter (\<lambda>r. local_filename r \<noteq> None) (report_successful_videos rep)) = 3
      \<and> (\<forall>r \<in> set (report_successful_videos rep). retrievals (video_index r) evs = 1)
      \<and> (\<forall>r \<in> set (report_failed_videos rep). retrievals (video_index r) evs = 0)
      \<and> (\<exists>st' r. process_prompt mixed ''bkt'' ''luma-videos/20240103_090000'' ''20240103_090000''
                      ''ads/generated_ads'' 2 ''bag.jpg'' (Some ''base64'') 2
                      (PromptDict (Some ''runner at dawn'') (Some ''Lifestyle Focus''))
                      (initial_state\<lparr>total_video_index := 4\<rparr>) = Inr st'
                  \<and> successful_videos st' = [r] \<and> success r \<and> local_filename r = None
                  \<and> collect_session_videos (successful_videos st') = [])"
proof -
  have "report_summary (fst (generate_ads mixed (example_host ''20240103_090000'') ''ads'' 3
                          (Some ''bkt'') True None Map.empty))
     = Some (''20240103_090000'', 6, 4, 2,
             [''video_20240103_090000_01_01_hero_showcase.mp4'',
              ''video_20240103_090000_01_03_technical_detail.mp4'',
              ''video_20240103_090000_02_03_technical_detail.mp4''])"
    by code_simp
  then obtain rep where
    r: "fst (generate_ads mixed (example_host ''20240103_090000'') ''ads'' 3
              (Some ''bkt'') True None Map.empty) = Inr (Some rep)"
    and c: "report_timestamp rep = ''20240103_090000''" "successful_count rep = 4"
    by (blast dest: report_summary_Some)
  have m: "fst (snd (generate_ads mixed (example_host ''20240103_090000'') ''ads'' 3
                 (Some ''bkt'') True None Map.empty)) (session_file_of ''ads'' ''20240103_090000'')
           = Some (SessionFile
                \<lparr>session_timestamp = ''20240103_090000'',
                 session_timestamp_iso = ''2024-01-01T12:00:00'',
                 session_videos =
                   [''video_20240103_090000_01_01_hero_showcase.mp4'',
                    ''video_20240103_090000_01_03_technical_detail.mp4'',
                    ''video_20240103_090000_02_03_technical_detail.mp4''],
                 generation_report_name = ''generation_report_20240103_090000.json''\<rparr>)"
    by code_simp
  note T = retrieval_once_per_completed_job [OF triple_of_fst [OF r]]
  have h: "success (fst (generate_video_async mixed
                     (prompt_text_of (PromptDict (Some ''runner at dawn'') (Some ''Lifestyle Focus'')))
                     ''bkt'' ''luma-videos/20240103_090000''
                     (Suc (total_video_index (initial_state\<lparr>total_video_index := 4\<rparr>)))
                     (Some ''base64'') (Some ''bag.jpg'')))
          \<and> s3_location (fst (generate_video_async mixed
                     (prompt_text_of (PromptDict (Some ''runner at dawn'') (Some ''Lifestyle Focus'')))
                     ''bkt'' ''luma-videos/20240103_090000''
                     (Suc (total_video_index (initial_state\<lparr>total_video_index := 4\<rparr>)))
                     (Some ''base64'') (Some ''bag.jpg''))) = Some ''s3://bkt/luma-videos/T/job/''
          \<and> \<not> fst (download_video_from_s3 mixed
                     (Suc (total_video_index (initial_state\<lparr>total_video_index := 4\<rparr>)))
                     ''s3://bkt/luma-videos/T/job/''
                     (path_join ''ads/generated_ads''
                        (local_filename_of ''20240103_090000'' 2 2
                           (prompt_type_of (PromptDict (Some ''runner at dawn'') (Some ''Lifestyle Focus''))))))"
    by code_simp
  have step: "\<exists>st' r. process_prompt mixed ''bkt'' ''luma-videos/20240103_090000'' ''20240103_090000''
                      ''ads/generated_ads'' 2 ''bag.jpg'' (Some ''base64'') 2
                      (PromptDict (Some ''runner at dawn'') (Some ''Lifestyle Focus''))
                      (initial_state\<lparr>total_video_index := 4\<rparr>) = Inr st'
                  \<and> successful_videos st' = [r] \<and> success r \<and> local_filename r = None
                  \<and> collect_session_videos (successful_videos st') = []"
    using T [THEN conjunct2, THEN conjunct2, THEN conjunct2, THEN conjunct2, THEN conjunct2,
             rule_format, OF h]
    by (simp add: initial_state_def collect_session_videos_def map_filter_def) blast
  from T m c have "collect_session_videos (report_successful_videos rep) =
                     [''video_20240103_090000_01_01_hero_showcase.mp4'',
                      ''video_20240103_090000_01_03_technical_detail.mp4'',
                      ''video_20240103_090000_02_03_technical_detail.mp4'']"
    by (cases "collect_session_videos (report_successful_videos rep) = []") auto
  then have n3: "length (collect_session_videos (report_successful_videos rep)) = 3"
    by simp
  with T c step triple_of_fst [OF r] show ?thesis
    by (intro exI [of _ rep]
        exI [of _ "fst (snd (generate_ads mixed (example_host ''20240103_090000'') ''ads'' 3
                 (Some ''bkt'') True None Map.empty))"]
        exI [of _ "snd (snd (generate_ads mixed (example_host ''20240103_090000'') ''ads'' 3
                 (Some ''bkt'') True None Map.empty))"]) simp
qed


lemma generate_ads_unchanged:
  "fst (generate_ads R H folder n bkt use_imgs ts0 fs) = Inr None \<or>
   (\<exists>e. fst (generate_ads R H folder n bkt use_imgs ts0 fs) = Inl e) \<Longrightarrow>
   fst (snd (generate_ads R H folder n bkt use_imgs ts0 fs)) = fs"
  by (auto simp: generate_ads_def Let_def split: if_splits sum.splits)

text \<open>
  C10: when a session returns its report and no completed job has a \<open>local_filename\<close>
  (the list of produced files is empty), the only file written is the report: the
  session file and \<open>latest_session_videos.json\<close> are as they were before the session,
  and the trace holds no write of either.
\<close>

theorem no_manifest_without_retrieved_artifact:
  assumes "generate_ads R H folder n bkt use_imgs ts0 fs = (Inr (Some rep), fs', evs)"
    and "collect_session_videos (report_successful_videos rep) = []"
  shows "fs' = fs(report_file_of folder (report_timestamp rep) \<mapsto> ReportFile rep)
         \<and> fs' (latest_session_file_of folder) = fs (latest_session_file_of folder)
         \<and> fs' (session_file_of folder (report_timestamp rep))
             = fs (session_file_of folder (report_timestamp rep))
         \<and> WriteFile (latest_session_file_of folder) \<notin> set evs
         \<and> WriteFile (session_file_of folder (report_timestamp rep)) \<notin> set evs"
proof -
  from generate_ads_report [OF assms(1)] assms(2) obtain st where
    inv: "session_inv st"
    and ts: "report_timestamp rep = session_id H ts0"
    and fs': "fs' = fs(report_file_of folder (session_id H ts0) \<mapsto> ReportFile rep)"
    and evs: "evs = trace st @ [WriteFile (report_file_of folder (session_id H ts0))]"
    by auto
  from inv have nw: "\<forall>e \<in> set (trace st). \<not> is_write e"
    by (simp add: session_inv_def)
  have "WriteFile (latest_session_file_of folder) \<notin> set (trace st)"
    "WriteFile (session_file_of folder (session_id H ts0)) \<notin> set (trace st)"
    using nw by auto
  then show ?thesis
    by (simp add: fs' evs ts session_paths_distinct session_paths_distinct [symmetric])
qed

theorem no_manifest_without_retrieved_artifact_witness:
  "\<exists>rep. fst (generate_ads none_retrieved (example_host ''20240102_090000'') ''ads'' 3 (Some ''bkt'')
                True None (run_sessions [session_a] Map.empty)) = Inr (Some rep)
         \<and> successful_count rep = 5
         \<and> collect_session_videos (report_successful_videos rep) = []
         \<and> fst (snd (generate_ads none_retrieved (example_host ''20240102_090000'') ''ads'' 3
                        (Some ''bkt'') True None (run_sessions [session_a] Map.empty)))
              (latest_session_file_of ''ads'')
             = run_sessions [session_a] Map.empty (latest_session_file_of ''ads'')
         \<and> fst (snd (generate_ads none_retrieved (example_host ''20240102_090000'') ''ads'' 3
                        (Some ''bkt'') True None (run_sessions [session_a] Map.empty)))
              (session_file_of ''ads'' ''20240102_090000'') = None"
proof -
  have "report_summary (fst (generate_ads none_retrieved (example_host ''20240102_090000'') ''ads'' 3
                          (Some ''bkt'') True None (run_sessions [session_a] Map.empty)))
     = Some (''20240102_090000'', 6, 5, 1, [])"
    by code_simp
  then obtain rep where
    r: "fst (generate_ads none_retrieved (example_host ''20240102_090000'') ''ads'' 3
              (Some ''bkt'') True None (run_sessions [session_a] Map.empty)) = Inr (Some rep)"
    and c: "report_timestamp rep = ''20240102_090000''" "successful_count rep = 5"
    and e: "collect_session_videos (report_successful_videos rep) = []"
    by (blast dest: report_summary_Some)
  have n: "run_sessions [session_a] Map.empty (session_file_of ''ads'' ''20240102_090000'') = None"
    by code_simp
  from no_manifest_without_retrieved_artifact [OF triple_of_fst [OF r] e, THEN conjunct2] r e c n
  show ?thesis by simp
qed

lemma run_sessions_snoc:
  "run_sessions (ss @ [s]) fs0 = run_session s (run_sessions ss fs0)"
  by (simp add: run_sessions_def)

lemma files_during_written:
  assumes "generate_ads R H folder n bkt use_imgs ts0 fs = (Inr (Some rep), fs', evs)"
    and "collect_session_videos (report_successful_videos rep) \<noteq> []"
  shows "\<exists>sd. session_timestamp sd = report_timestamp rep
           \<and> session_videos sd = collect_session_videos (report_successful_videos rep)
           \<and> files_during R H folder n bkt use_imgs ts0 fs =
               [fs(report_file_of folder (report_timestamp rep) \<mapsto> Truncated),
                fs(report_file_of folder (report_timestamp rep) \<mapsto> ReportFile rep),
                fs(report_file_of folder (report_timestamp rep) \<mapsto> ReportFile rep,
                   session_file_of folder (report_timestamp rep) \<mapsto> Truncated),
                fs(report_file_of folder (report_timestamp rep) \<mapsto> ReportFile rep,
                   session_file_of folder (report_timestamp rep) \<mapsto> SessionFile sd),
                fs(report_file_of folder (report_timestamp rep) \<mapsto> ReportFile rep,
                   session_file_of folder (report_timestamp rep) \<mapsto> SessionFile sd,
                   latest_session_file_of folder \<mapsto> Truncated),
                fs(report_file_of folder (report_timestamp rep) \<mapsto> ReportFile rep,
                   session_file_of folder (report_timestamp rep) \<mapsto> SessionFile sd,
                   latest_session_file_of folder \<mapsto> SessionFile sd)]
           \<and> fs' = fs(report_file_of folder (report_timestamp rep) \<mapsto> ReportFile rep,
                       session_file_of folder (report_timestamp rep) \<mapsto> SessionFile sd,
                       latest_session_file_of folder \<mapsto> SessionFile sd)"
proof -
  from generate_ads_report [OF assms(1)] assms(2) obtain st where
    inv: "session_inv st"
    and rs: "report_successful_videos rep = successful_videos st"
    and rf: "report_failed_videos rep = failed_videos st"
    and ta: "total_attempted rep = total_video_index st"
    and ts: "report_timestamp rep = session_id H ts0"
    and fs': "fs' = fs(report_file_of folder (session_id H ts0) \<mapsto> ReportFile rep,
                 session_file_of folder (session_id H ts0) \<mapsto>
                   SessionFile \<lparr>session_timestamp = session_id H ts0,
                               session_timestamp_iso = now_isoformat H 1,
                               session_videos = collect_session_videos (successful_videos st),
                               generation_report_name =
                                 path_name (report_file_of folder (session_id H ts0))\<rparr>,
                 latest_session_file_of folder \<mapsto>
                   SessionFile \<lparr>session_timestamp = session_id H ts0,
                               session_timestamp_iso = now_isoformat H 1,
                               session_videos = collect_session_videos (successful_videos st),
                               generation_report_name =
                                 path_name (report_file_of folder (session_id H ts0))\<rparr>)"
    and evs: "evs = trace st @
                 [WriteFile (report_file_of folder (session_id H ts0)),
                  WriteFile (session_file_of folder (session_id H ts0)),
                  WriteFile (latest_session_file_of folder)]"
    by auto
  from assms(2) have ne: "collect_session_videos (successful_videos st) \<noteq> []"
    by (simp add: rs)
  from assms(1) have g: "fst (generate_ads R H folder n bkt use_imgs ts0 fs) = Inr (Some rep)"
    by simp
  show ?thesis
    using ne
    by (intro exI [of _ "\<lparr>session_timestamp = session_id H ts0,
                               session_timestamp_iso = now_isoformat H 1,
                               session_videos = collect_session_videos (successful_videos st),
                               generation_report_name =
                                 path_name (report_file_of folder (session_id H ts0))\<rparr>"])
      (simp add: files_during_def g Let_def write_json_def write_json_states_def fs' ts rs)
qed


text \<open>
  C2, as the code has it: after sessions run one after the other, when the last session
  returns its report and retrieved at least one artifact, \<open>latest_session_videos.json\<close>
  holds the manifest of that session, the same as its session file, whether or not some
  of its jobs failed. Both are written once, after the report and after every event of
  every job of the session, each of which has its result in one of the two lists. The
  pointer is overwritten in place, not atomically: through the writes of the report and
  of the session file it holds what it held before the session, then \<open>open(..., 'w')\<close>
  leaves it empty, and only \<open>json.dump\<close> puts the new manifest in it.
\<close>

theorem latest_pointer_after_sessions:
  assumes "generate_ads (run_remote s) (run_host s) (run_folder s) (run_num_videos s)
             (run_s3_bucket s) (run_use_images s) (run_timestamp s) (run_sessions ss fs0)
           = (Inr (Some rep), fs', evs)"
    and "collect_session_videos (report_successful_videos rep) \<noteq> []"
  shows "(\<exists>sd. run_sessions (ss @ [s]) fs0 (latest_session_file_of (run_folder s))
                 = Some (SessionFile sd)
               \<and> run_sessions (ss @ [s]) fs0
                   (session_file_of (run_folder s) (report_timestamp rep)) = Some (SessionFile sd)
               \<and> session_timestamp sd = report_timestamp rep
               \<and> session_videos sd = collect_session_videos (report_successful_videos rep)
               \<and> map (\<lambda>files. files (latest_session_file_of (run_folder s)))
                     (files_during (run_remote s) (run_host s) (run_folder s) (run_num_videos s)
                        (run_s3_bucket s) (run_use_images s) (run_timestamp s) (run_sessions ss fs0))
                   = [run_sessions ss fs0 (latest_session_file_of (run_folder s)),
                      run_sessions ss fs0 (latest_session_file_of (run_folder s)),
                      run_sessions ss fs0 (latest_session_file_of (run_folder s)),
                      run_sessions ss fs0 (latest_session_file_of (run_folder s)),
                      Some Truncated,
                      Some (SessionFile sd)])
         \<and> last (files_during (run_remote s) (run_host s) (run_folder s) (run_num_videos s)
                    (run_s3_bucket s) (run_use_images s) (run_timestamp s) (run_sessions ss fs0))
             = run_sessions (ss @ [s]) fs0
         \<and> (\<exists>job_events.
               evs = job_events @
                       [WriteFile (report_file_of (run_folder s) (report_timestamp rep)),
                        WriteFile (session_file_of (run_folder s) (report_timestamp rep)),
                        WriteFile (latest_session_file_of (run_folder s))]
               \<and> (\<forall>e \<in> set job_events. \<not> is_write e))
         \<and> total_attempted rep
             = length (report_successful_videos rep) + length (report_failed_videos rep)"
proof -
  have last: "run_sessions (ss @ [s]) fs0 = fs'"
    using assms(1) by (simp add: run_sessions_snoc run_session_def)
  from files_during_written [OF assms] obtain sd where
    sd: "session_timestamp sd = report_timestamp rep"
        "session_videos sd = collect_session_videos (report_successful_videos rep)"
    and during:
      "files_during (run_remote s) (run_host s) (run_folder s) (run_num_videos s)
         (run_s3_bucket s) (run_use_images s) (run_timestamp s) (run_sessions ss fs0) =
         [(run_sessions ss fs0)(report_file_of (run_folder s) (report_timestamp rep) \<mapsto> Truncated),
          (run_sessions ss fs0)(report_file_of (run_folder s) (report_timestamp rep) \<mapsto> ReportFile rep),
          (run_sessions ss fs0)(report_file_of (run_folder s) (report_timestamp rep) \<mapsto> ReportFile rep,
             session_file_of (run_folder s) (report_timestamp rep) \<mapsto> Truncated),
          (run_sessions ss fs0)(report_file_of (run_folder s) (report_timestamp rep) \<mapsto> ReportFile rep,
             session_file_of (run_folder s) (report_timestamp rep) \<mapsto> SessionFile sd),
          (run_sessions ss fs0)(report_file_of (run_folder s) (report_timestamp rep) \<mapsto> ReportFile rep,
             session_file_of (run_folder s) (report_timestamp rep) \<mapsto> SessionFile sd,
             latest_session_file_of (run_folder s) \<mapsto> Truncated),
          (run_sessions ss fs0)(report_file_of (run_folder s) (report_timestamp rep) \<mapsto> ReportFile rep,
             session_file_of (run_folder s) (report_timestamp rep) \<mapsto> SessionFile sd,
             latest_session_file_of (run_folder s) \<mapsto> SessionFile sd)]"
    and fs': "fs' = (run_sessions ss fs0)
                (report_file_of (run_folder s) (report_timestamp rep) \<mapsto> ReportFile rep,
                 session_file_of (run_folder s) (report_timestamp rep) \<mapsto> SessionFile sd,
                 latest_session_file_of (run_folder s) \<mapsto> SessionFile sd)"
    by (elim exE conjE)
  have a: "\<exists>sd. run_sessions (ss @ [s]) fs0 (latest_session_file_of (run_folder s))
                 = Some (SessionFile sd)
               \<and> run_sessions (ss @ [s]) fs0
                   (session_file_of (run_folder s) (report_timestamp rep)) = Some (SessionFile sd)
               \<and> session_timestamp sd = report_timestamp rep
               \<and> session_videos sd = collect_session_videos (report_successful_videos rep)
               \<and> map (\<lambda>files. files (latest_session_file_of (run_folder s)))
                     (files_during (run_remote s) (run_host s) (run_folder s) (run_num_videos s)
                        (run_s3_bucket s) (run_use_images s) (run_timestamp s) (run_sessions ss fs0))
                   = [run_sessions ss fs0 (latest_session_file_of (run_folder s)),
                      run_sessions ss fs0 (latest_session_file_of (run_folder s)),
                      run_sessions ss fs0 (latest_session_file_of (run_folder s)),
                      run_sessions ss fs0 (latest_session_file_of (run_folder s)),
                      Some Truncated,
                      Some (SessionFile sd)]"
    unfolding last during
    by (intro exI [of _ sd])
      (simp add: fs' sd session_paths_distinct session_paths_distinct [symmetric])
  have d: "last (files_during (run_remote s) (run_host s) (run_folder s) (run_num_videos s)
                    (run_s3_bucket s) (run_use_images s) (run_timestamp s) (run_sessions ss fs0))
             = run_sessions (ss @ [s]) fs0"
    unfolding last during by (simp add: fs')
  from generate_ads_report [OF assms(1)] assms(2) obtain st where
    inv: "session_inv st"
    and rs: "report_successful_videos rep = successful_videos st"
    and rf: "report_failed_videos rep = failed_videos st"
    and ta: "total_attempted rep = total_video_index st"
    and ts: "report_timestamp rep = session_id (run_host s) (run_timestamp s)"
    and evs: "evs = trace st @
                 [WriteFile (report_file_of (run_folder s) (session_id (run_host s) (run_timestamp s))),
                  WriteFile (session_file_of (run_folder s) (session_id (run_host s) (run_timestamp s))),
                  WriteFile (latest_session_file_of (run_folder s))]"
    by auto
  have b: "\<exists>job_events.
               evs = job_events @
                       [WriteFile (report_file_of (run_folder s) (report_timestamp rep)),
                        WriteFile (session_file_of (run_folder s) (report_timestamp rep)),
                        WriteFile (latest_session_file_of (run_folder s))]
               \<and> (\<forall>e \<in> set job_events. \<not> is_write e)"
    using inv by (intro exI [of _ "trace st"]) (simp add: evs ts session_inv_def)
  have c: "total_attempted rep
             = length (report_successful_videos rep) + length (report_failed_videos rep)"
    using inv by (simp add: ta rs rf session_inv_def)
  from a d b c show ?thesis by (intro conjI)
qed

theorem latest_pointer_after_sessions_witness:
  "run_sessions ([session_a] @ [session_c]) Map.empty (latest_session_file_of ''ads'')
     = Some (SessionFile
              \<lparr>session_timestamp = ''20240103_090000'',
               session_timestamp_iso = ''2024-01-01T12:00:00'',
               session_videos =
                 [''video_20240103_090000_01_01_hero_showcase.mp4'',
                  ''video_20240103_090000_01_03_technical_detail.mp4'',
                  ''video_20240103_090000_02_03_technical_detail.mp4''],
               generation_report_name = ''generation_report_20240103_090000.json''\<rparr>)
   \<and> run_sessions ([session_a] @ [session_c]) Map.empty (session_file_of ''ads'' ''20240103_090000'')
     = run_sessions ([session_a] @ [session_c]) Map.empty (latest_session_file_of ''ads'')
   \<and> last (files_during (run_remote session_c) (run_host session_c) (run_folder session_c)
              (run_num_videos session_c) (run_s3_bucket session_c) (run_use_images session_c)
              (run_timestamp session_c) (run_sessions [session_a] Map.empty))
     = run_sessions ([session_a] @ [session_c]) Map.empty"
proof -
  have "report_summary
          (fst (generate_ads (run_remote session_c) (run_host session_c) (run_folder session_c)
                  (run_num_videos session_c) (run_s3_bucket session_c) (run_use_images session_c)
                  (run_timestamp session_c) (run_sessions [session_a] Map.empty)))
     = Some (''20240103_090000'', 6, 4, 2,
             [''video_20240103_090000_01_01_hero_showcase.mp4'',
              ''video_20240103_090000_01_03_technical_detail.mp4'',
              ''video_20240103_090000_02_03_technical_detail.mp4''])"
    by code_simp
  then obtain rep where
    r: "fst (generate_ads (run_remote session_c) (run_host session_c) (run_folder session_c)
                  (run_num_videos session_c) (run_s3_bucket session_c) (run_use_images session_c)
                  (run_timestamp session_c) (run_sessions [session_a] Map.empty)) = Inr (Some rep)"
    and c: "report_timestamp rep = ''20240103_090000''"
    and e: "collect_session_videos (report_successful_videos rep) =
             [''video_20240103_090000_01_01_hero_showcase.mp4'',
              ''video_20240103_090000_01_03_technical_detail.mp4'',
              ''video_20240103_090000_02_03_technical_detail.mp4'']"
    by (blast dest: report_summary_Some)
  from e have ne: "collect_session_videos (report_successful_videos rep) \<noteq> []" by simp
  have f: "run_folder session_c = ''ads''" by (simp add: session_c_def)
  have l: "run_sessions ([session_a] @ [session_c]) Map.empty (latest_session_file_of ''ads'')
     = Some (SessionFile
              \<lparr>session_timestamp = ''20240103_090000'',
               session_timestamp_iso = ''2024-01-01T12:00:00'',
               session_videos =
                 [''video_20240103_090000_01_01_hero_showcase.mp4'',
                  ''video_20240103_090000_01_03_technical_detail.mp4'',
                  ''video_20240103_090000_02_03_technical_detail.mp4''],
               generation_report_name = ''generation_report_20240103_090000.json''\<rparr>)"
    by code_simp
  note T = latest_pointer_after_sessions [OF triple_of_fst [OF r] ne]
  from T [THEN conjunct1] c f l
  have 1: "run_sessions ([session_a] @ [session_c]) Map.empty (session_file_of ''ads'' ''20240103_090000'')
     = run_sessions ([session_a] @ [session_c]) Map.empty (latest_session_file_of ''ads'')"
    by auto
  from l 1 T [THEN conjunct2, THEN conjunct1] show ?thesis by simp
qed

text \<open>
  C2 as stated fails in two ways. \<open>session_b\<close> runs after \<open>session_a\<close> and returns its
  report (six jobs, five completed, one failed), but none of its videos is retrieved, so
  it writes no manifest: \<open>latest_session_videos.json\<close> still holds the manifest of
  \<open>session_a\<close>, and there is no session file of \<open>session_b\<close>. And when \<open>session_c\<close>
  runs after \<open>session_a\<close> and does write its manifest, the fifth of the six states the
  files go through has the session file of \<open>session_c\<close> complete and the pointer
  empty: the overwrite is not atomic.
\<close>

theorem latest_pointer_counterexample:
  "report_summary
     (fst (generate_ads (run_remote session_b) (run_host session_b) (run_folder session_b)
             (run_num_videos session_b) (run_s3_bucket session_b) (run_use_images session_b)
             (run_timestamp session_b) (run_sessions [session_a] Map.empty)))
     = Some (''20240102_090000'', 6, 5, 1, [])
   \<and> run_sessions [session_a, session_b] Map.empty (latest_session_file_of ''ads'')
     = Some (SessionFile
              \<lparr>session_timestamp = ''20240101_120000'',
               session_timestamp_iso = ''2024-01-01T12:00:00'',
               session_videos =
                 [''video_20240101_120000_01_01_hero_showcase.mp4'',
                  ''video_20240101_120000_01_02_lifestyle_focus.mp4'',
                  ''video_20240101_120000_01_03_technical_detail.mp4'',
                  ''video_20240101_120000_02_01_hero_showcase.mp4'',
                  ''video_20240101_120000_02_02_lifestyle_focus.mp4'',
                  ''video_20240101_120000_02_03_technical_detail.mp4''],
               generation_report_name = ''generation_report_20240101_120000.json''\<rparr>)
   \<and> run_sessions [session_a, session_b] Map.empty (session_file_of ''ads'' ''20240102_090000'')
     = None
   \<and> length (files_during (run_remote session_c) (run_host session_c) (run_folder session_c)
               (run_num_videos session_c) (run_s3_bucket session_c) (run_use_images session_c)
               (run_timestamp session_c) (run_sessions [session_a] Map.empty)) = 6
   \<and> (files_during (run_remote session_c) (run_host session_c) (run_folder session_c)
         (run_num_videos session_c) (run_s3_bucket session_c) (run_use_images session_c)
         (run_timestamp session_c) (run_sessions [session_a] Map.empty) ! 4)
       (latest_session_file_of ''ads'') = Some Truncated
   \<and> (files_during (run_remote session_c) (run_host session_c) (run_folder session_c)
         (run_num_videos session_c) (run_s3_bucket session_c) (run_use_images session_c)
         (run_timestamp session_c) (run_sessions [session_a] Map.empty) ! 4)
       (session_file_of ''ads'' ''20240103_090000'')
       = Some (SessionFile
              \<lparr>session_timestamp = ''20240103_090000'',
               session_timestamp_iso = ''2024-01-01T12:00:00'',
               session_videos =
                 [''video_20240103_090000_01_01_hero_showcase.mp4'',
                  ''video_20240103_090000_01_03_technical_detail.mp4'',
                  ''video_20240103_090000_02_03_technical_detail.mp4''],
               generation_report_name = ''generation_report_20240103_090000.json''\<rparr>)"
  by code_simp











section \<open>Properties of the artifact names\<close>



















section \<open>Properties of the transition path\<close>


lemma fade_out_start_when_long_enough:
  assumes "Suc i < length vfs"
    and "get_video_info M (vfs ! i) = Some info"
    and "0 < duration info" and "T \<le> duration info"
  shows "\<exists>fs. segment_chain M vfs T w h i = Chain i (fs @ [Fade_out (max 0 (duration info - T)) T]) i"
  using assms by (simp add: segment_chain_def max_def)








section \<open>Properties of the segment resolution\<close>












end
